theory Spec2Isabelle
  imports Complex_Main
begin

section \<open>Python values, errors and configuration\<close>

text \<open>
  The exceptions that the modelled code can raise. A function that may raise returns
  \<open>error + 'a\<close>, with \<open>Inl\<close> for the exception. \<open>ExternalError\<close> stands for whatever
  an external collaborator (model factory, checkpoint loader, evaluator) raises.
\<close>

datatype error =
    KeyError string
  | AttributeError string
  | NameError string
  | TypeError string
  | IndexError string
  | RuntimeError string
  | ValueError string
  | UnboundLocalError string
  | ZeroDivisionError
  | ExternalError string

text \<open>Sequencing: the first exception ends the computation.\<close>

definition and_then :: "error + 'a \<Rightarrow> ('a \<Rightarrow> error + 'b) \<Rightarrow> error + 'b" where
  "and_then m f = (case m of Inl e \<Rightarrow> Inl e | Inr v \<Rightarrow> f v)"

text \<open>
  The configuration is a nested Python dict; its values are modelled by \<open>pyval\<close> and a
  dict by an association list (the first binding of a key is the one found).
\<close>

datatype pyval =
    VNone
  | VBool bool
  | VInt int
  | VFloat real
  | VStr string
  | VDict "(string \<times> pyval) list"

type_synonym config = "(string \<times> pyval) list"

text \<open>\<open>d[k]\<close> on a dict: \<open>KeyError\<close> when the key is absent.\<close>

definition lookup :: "(string \<times> 'v) list \<Rightarrow> string \<Rightarrow> error + 'v" where
  "lookup d k = (case map_of d k of None \<Rightarrow> Inl (KeyError k) | Some v \<Rightarrow> Inr v)"

text \<open>\<open>v[k]\<close> on a value with a string key: only a dict can be subscripted so.\<close>

definition getitem :: "pyval \<Rightarrow> string \<Rightarrow> error + pyval" where
  "getitem v k = (case v of VDict d \<Rightarrow> lookup d k | _ \<Rightarrow> Inl (TypeError k))"

text \<open>Python truthiness, as used by \<open>if generator_checkpoint_path:\<close>.\<close>

fun truthy :: "pyval \<Rightarrow> bool" where
  "truthy VNone = False"
| "truthy (VBool b) = b"
| "truthy (VInt i) = (i \<noteq> 0)"
| "truthy (VFloat r) = (r \<noteq> 0)"
| "truthy (VStr s) = (s \<noteq> [])"
| "truthy (VDict d) = (d \<noteq> [])"

text \<open>
  \<open>str.lower()\<close> on characters read as code points below 256: the ASCII capitals and
  the Latin-1 capitals (all of 192..222 but the multiplication sign 215) move up by 32,
  every other character stays.
\<close>

definition lower_char :: "char \<Rightarrow> char" where
  "lower_char c =
     (let n = (of_char c :: nat)
      in if (65 \<le> n \<and> n \<le> 90) \<or> (192 \<le> n \<and> n \<le> 214) \<or> (216 \<le> n \<and> n \<le> 222)
         then char_of (n + 32) else c)"

definition lower :: "string \<Rightarrow> string" where
  "lower s = map lower_char s"

section \<open>Tensors\<close>

text \<open>
  A tensor is its shape, its elements in row-major order (real numbers stand for the
  32-bit floats) and the set of networks whose parameters its autograd graph reaches:
  backpropagating from a tensor writes a gradient into the parameters of exactly these
  networks. A tensor of a batch comes from the loader and reaches none.
\<close>

datatype owner = Generator | Critic

record tensor =
  shape :: "nat list"
  elems :: "real list"
  grad_deps :: "owner set"

text \<open>
  A zero-dimensional tensor as \<open>torch.mean\<close> returns it. \<open>item = None\<close> is the float
  \<open>nan\<close> (the mean of no elements); arithmetic propagates it.
\<close>

record scalar =
  item :: "real option"
  sdeps :: "owner set"

definition s_sub :: "scalar \<Rightarrow> scalar \<Rightarrow> scalar" where
  "s_sub a b =
     \<lparr>item = (case (item a, item b) of (Some u, Some v) \<Rightarrow> Some (u - v) | _ \<Rightarrow> None),
      sdeps = sdeps a \<union> sdeps b\<rparr>"

definition s_add :: "scalar \<Rightarrow> scalar \<Rightarrow> scalar" where
  "s_add a b =
     \<lparr>item = (case (item a, item b) of (Some u, Some v) \<Rightarrow> Some (u + v) | _ \<Rightarrow> None),
      sdeps = sdeps a \<union> sdeps b\<rparr>"

definition s_scale :: "real \<Rightarrow> scalar \<Rightarrow> scalar" where
  "s_scale c a = a\<lparr>item := map_option (\<lambda>v. c * v) (item a)\<rparr>"

definition s_neg :: "scalar \<Rightarrow> scalar" where
  "s_neg a = a\<lparr>item := map_option uminus (item a)\<rparr>"

text \<open>\<open>torch.mean(t)\<close>: the mean of all elements, \<open>nan\<close> for a tensor without elements.\<close>

definition mean :: "tensor \<Rightarrow> scalar" where
  "mean t =
     \<lparr>item = (if elems t = [] then None
              else Some (sum_list (elems t) / real (length (elems t)))),
      sdeps = grad_deps t\<rparr>"

text \<open>\<open>t.detach()\<close>: the same values, cut off from the autograd graph.\<close>

definition detach :: "tensor \<Rightarrow> tensor" where
  "detach t = t\<lparr>grad_deps := {}\<rparr>"

text \<open>\<open>t.shape[0]\<close>: a zero-dimensional tensor has an empty shape tuple.\<close>

definition shape0 :: "tensor \<Rightarrow> error + nat" where
  "shape0 t = (case shape t of [] \<Rightarrow> Inl (IndexError ''shape[0]'') | n # _ \<Rightarrow> Inr n)"

text \<open>\<open>t.unsqueeze(dim=1)\<close>: a new axis of size 1 at position 1; a zero-dimensional
  tensor only has position 0.\<close>

definition unsqueeze :: "tensor \<Rightarrow> error + tensor" where
  "unsqueeze t =
     (case shape t of
        [] \<Rightarrow> Inl (IndexError ''unsqueeze'')
      | n # rest \<Rightarrow> Inr (t\<lparr>shape := n # 1 # rest\<rparr>))"

text \<open>The slices of a tensor along its first axis, each flattened.\<close>

definition rows_of :: "tensor \<Rightarrow> real list list" where
  "rows_of t =
     (let c = prod_list (tl (shape t))
      in map (\<lambda>i. take c (drop (i * c) (elems t))) [0..<hd (shape t)])"

text \<open>
  \<open>torch.cat([a, b], dim=1)\<close>. A one-dimensional tensor of shape \<open>[0]\<close> is skipped
  (the legacy rule of \<open>torch.cat\<close>); two of them give such a tensor again. A tensor
  that is not skipped needs at least two axes; two of them need the same number of axes
  and equal sizes on every axis but axis 1. The result is connected to both arguments in
  the autograd graph.
\<close>

definition skipped :: "tensor \<Rightarrow> bool" where
  "skipped t = (shape t = [0])"

definition cat :: "tensor \<Rightarrow> tensor \<Rightarrow> error + tensor" where
  "cat a b =
     (if skipped a \<and> skipped b then
        Inr \<lparr>shape = [0], elems = [], grad_deps = grad_deps a \<union> grad_deps b\<rparr>
      else if skipped a then
        (if length (shape b) < 2 then Inl (IndexError ''cat'')
         else Inr (b\<lparr>grad_deps := grad_deps a \<union> grad_deps b\<rparr>))
      else if skipped b then
        (if length (shape a) < 2 then Inl (IndexError ''cat'')
         else Inr (a\<lparr>grad_deps := grad_deps a \<union> grad_deps b\<rparr>))
      else if length (shape a) < 2 then Inl (IndexError ''cat'')
      else if length (shape a) = length (shape b) then
        (if hd (shape a) = hd (shape b) \<and> drop 2 (shape a) = drop 2 (shape b)
         then Inr \<lparr>shape = hd (shape a) # (shape a ! 1 + shape b ! 1) # drop 2 (shape a),
                   elems = concat (map (\<lambda>(r, s). r @ s) (zip (rows_of a) (rows_of b))),
                   grad_deps = grad_deps a \<union> grad_deps b\<rparr>
         else Inl (RuntimeError ''cat: sizes''))
      else Inl (RuntimeError ''cat: dimensions''))"

text \<open>
  \<open>t.to(self.params['device']).type(torch.float)\<close>: the lookup of the key can fail, and
  so can the move, for a value that names no device or a device that the machine does
  not have. Which values torch accepts on the machine is the parameter \<open>dev\<close>. A move
  that succeeds and the conversion to float leave the modelled tensor as it is.
\<close>

definition to_device :: "(pyval \<Rightarrow> bool) \<Rightarrow> config \<Rightarrow> tensor \<Rightarrow> error + tensor" where
  "to_device dev ps t =
     and_then (lookup ps ''device'') (\<lambda>d.
       if dev d then Inr t else Inl (RuntimeError ''device''))"

text \<open>
  \<open>torch.rand(n, 1)\<close>: one draw per example. The random draws are an argument, the
  function \<open>draw\<close> from the index of the example to its draw.
\<close>

definition rand_col :: "nat \<Rightarrow> (nat \<Rightarrow> real) \<Rightarrow> tensor" where
  "rand_col n draw = \<lparr>shape = [n, 1], elems = map draw [0..<n], grad_deps = {}\<rparr>"

text \<open>
  \<open>e.expand(size)\<close> for a tensor \<open>e\<close> of shape \<open>[n, 1]\<close>: the axes of \<open>e\<close> are aligned
  with the last two axes of \<open>size\<close>; the axis of size 1 is repeated, the axis of size
  \<open>n\<close> must match (or be 1 itself), and leading axes are new.
\<close>

definition expand :: "tensor \<Rightarrow> nat list \<Rightarrow> error + tensor" where
  "expand e sz =
     (let r = length sz; n = hd (shape e)
      in if r < 2 then Inl (RuntimeError ''expand: dimensions'')
         else if n = sz ! (r - 2) \<or> n = 1 then
           Inr \<lparr>shape = sz,
                elems = concat (replicate (prod_list (take (r - 2) sz))
                          (concat (map (\<lambda>i. replicate (sz ! (r - 1))
                                               (elems e ! (if n = 1 then 0 else i)))
                                       [0..<sz ! (r - 2)]))),
                grad_deps = grad_deps e\<rparr>
         else Inl (RuntimeError ''expand: sizes''))"

section \<open>Networks and the external model factory\<close>

text \<open>
  A network is an external collaborator: its forward function and, for the gradient
  penalty, the gradient of its summed output with respect to its input. Both can raise
  (a shape the network does not accept). \<open>has_parameters\<close> tells whether
  \<open>parameters()\<close> yields any parameter.
\<close>

record net =
  forward :: "tensor \<Rightarrow> error + tensor"
  input_grad :: "tensor \<Rightarrow> error + tensor"
  has_parameters :: bool

text \<open>
  \<open>self.generator_model(t)\<close> and \<open>self.critic_model(t)\<close> with gradient tracking on:
  the result reaches the parameters of the network and whatever the input reaches.
\<close>

definition apply_net :: "owner \<Rightarrow> net \<Rightarrow> tensor \<Rightarrow> error + tensor" where
  "apply_net w m t =
     and_then (forward m t) (\<lambda>y. Inr (y\<lparr>grad_deps := insert w (grad_deps t)\<rparr>))"

text \<open>The same call under \<open>torch.no_grad()\<close>: nothing is tracked.\<close>

definition apply_net_no_grad :: "net \<Rightarrow> tensor \<Rightarrow> error + tensor" where
  "apply_net_no_grad m t = and_then (forward m t) (\<lambda>y. Inr (y\<lparr>grad_deps := {}\<rparr>))"

text \<open>
  The model factory of the package \<open>models\<close>, taken as a parameter:
  \<open>create_node_model(params, model_type)\<close>, \<open>create_fcn_model(params, model_type)\<close>, and
  \<open>load_checkpoint path m\<close> for \<open>m.load_state_dict(torch.load(path))\<close>.
\<close>

record factory =
  create_node_model :: "pyval \<Rightarrow> pyval \<Rightarrow> error + net"
  create_fcn_model :: "pyval \<Rightarrow> pyval \<Rightarrow> error + net"
  load_checkpoint :: "pyval \<Rightarrow> net \<Rightarrow> error + net"

section \<open>WGAN: construction\<close>

record wgan =
  params :: config
  generator_model :: net
  critic_model :: net

text \<open>The common tail of \<open>create_generator\<close> and \<open>create_critic\<close>: load the checkpoint
  named under \<open>self.params[role]['checkpoint_path']\<close> when that value is truthy.\<close>

definition load_if_configured :: "factory \<Rightarrow> config \<Rightarrow> string \<Rightarrow> net \<Rightarrow> error + net" where
  "load_if_configured F ps role m =
     and_then (lookup ps role) (\<lambda>sect.
     and_then (getitem sect ''checkpoint_path'') (\<lambda>path.
       if truthy path then load_checkpoint F path m else Inr m))"

text \<open>\<open>v.lower()\<close>: only a string has the method.\<close>

definition str_lower :: "pyval \<Rightarrow> error + string" where
  "str_lower v = (case v of VStr s \<Rightarrow> Inr (lower s) | _ \<Rightarrow> Inl (AttributeError ''lower''))"

text \<open>\<open>"...{}".format(v)\<close>, needed for a string \<open>v\<close> only: the message is built after
  \<open>v.lower()\<close> has succeeded.\<close>

definition format_str :: "string \<Rightarrow> pyval \<Rightarrow> string" where
  "format_str msg v = (case v of VStr s \<Rightarrow> msg @ s | _ \<Rightarrow> msg)"

text \<open>
  \<open>WGAN.create_generator\<close>. The first test compares the lower-cased generator
  architecture with \<open>"NODE"\<close>, the second the lower-cased critic architecture with
  \<open>"FCN"\<close>, as the source does.
\<close>

definition create_generator :: "factory \<Rightarrow> config \<Rightarrow> error + net" where
  "create_generator F ps =
     and_then (lookup ps ''generator_architecture'') (\<lambda>ga.
     and_then (str_lower ga) (\<lambda>gl.
       if gl = ''NODE'' then
         and_then (lookup ps ''generator'') (\<lambda>sect.
         and_then (getitem sect ''params'') (\<lambda>p.
         and_then (lookup ps ''generator_model_type'') (\<lambda>mt.
         and_then (create_node_model F p mt) (\<lambda>m.
           load_if_configured F ps ''generator'' m))))
       else
         and_then (lookup ps ''critic_architecture'') (\<lambda>ca.
         and_then (str_lower ca) (\<lambda>cl.
           if cl = ''FCN'' then
             and_then (lookup ps ''generator'') (\<lambda>sect.
             and_then (lookup ps ''generator_model_type'') (\<lambda>mt.
             and_then (create_fcn_model F sect mt) (\<lambda>m.
               load_if_configured F ps ''generator'' m)))
           else Inl (NameError (format_str ''Unknown generator architecture: '' ga))))))"

text \<open>\<open>WGAN.create_critic\<close>: both tests read the critic architecture and compare with
  lower-case literals.\<close>

definition create_critic :: "factory \<Rightarrow> config \<Rightarrow> error + net" where
  "create_critic F ps =
     and_then (lookup ps ''critic_architecture'') (\<lambda>ca.
     and_then (str_lower ca) (\<lambda>cl.
       if cl = ''node'' then
         and_then (lookup ps ''critic'') (\<lambda>sect.
         and_then (lookup ps ''critic_model_type'') (\<lambda>mt.
         and_then (create_node_model F sect mt) (\<lambda>m.
           load_if_configured F ps ''critic'' m)))
       else
         and_then (lookup ps ''critic_architecture'') (\<lambda>ca2.
         and_then (str_lower ca2) (\<lambda>cl2.
           if cl2 = ''fcn'' then
             and_then (lookup ps ''critic'') (\<lambda>sect.
             and_then (lookup ps ''critic_model_type'') (\<lambda>mt.
             and_then (create_fcn_model F sect mt) (\<lambda>m.
               load_if_configured F ps ''critic'' m)))
           else Inl (NameError (format_str ''Unknown critic architecture: '' ca2))))))"

text \<open>\<open>WGAN.__init__\<close>: store the configuration, build the generator, then the critic.\<close>

definition WGAN_init :: "factory \<Rightarrow> config \<Rightarrow> error + wgan" where
  "WGAN_init F cfg =
     and_then (create_generator F cfg) (\<lambda>g.
     and_then (create_critic F cfg) (\<lambda>c.
       Inr \<lparr>params = cfg, generator_model = g, critic_model = c\<rparr>))"

text \<open>
  \<open>torch.optim.Adam(parameters, lr=..., weight_decay=...)\<close>: the constructor compares
  \<open>0.0 <= lr\<close> and \<open>0.0 <= weight_decay\<close>, which raises \<open>TypeError\<close> for a value that
  is no number and makes it raise \<open>ValueError\<close> for a negative one, and it raises
  \<open>ValueError\<close> for an empty parameter list.
\<close>

record optimizer =
  opt_params :: owner
  learning_rate :: pyval
  weight_decay :: pyval
  step_count :: nat

fun as_number :: "pyval \<Rightarrow> real option" where
  "as_number (VInt i) = Some (real_of_int i)"
| "as_number (VFloat r) = Some r"
| "as_number (VBool b) = Some (if b then 1 else 0)"
| "as_number VNone = None"
| "as_number (VStr s) = None"
| "as_number (VDict d) = None"

definition check_non_negative :: "string \<Rightarrow> pyval \<Rightarrow> error + unit" where
  "check_non_negative what v =
     (case as_number v of
        None \<Rightarrow> Inl (TypeError what)
      | Some r \<Rightarrow> if 0 \<le> r then Inr () else Inl (ValueError what))"

definition Adam :: "owner \<Rightarrow> net \<Rightarrow> pyval \<Rightarrow> pyval \<Rightarrow> error + optimizer" where
  "Adam w m lr wd =
     and_then (check_non_negative ''Invalid learning rate'' lr) (\<lambda>_.
     and_then (check_non_negative ''Invalid weight_decay value'' wd) (\<lambda>_.
       if has_parameters m
       then Inr \<lparr>opt_params = w, learning_rate = lr, weight_decay = wd, step_count = 0\<rparr>
       else Inl (ValueError ''optimizer got an empty parameter list'')))"

text \<open>
  \<open>WGAN.configure_optimizers\<close>: one Adam optimizer per network, over that network's
  parameters; any optimizer name but \<open>'adam'\<close> raises \<open>NameError\<close>.
\<close>

definition adam_for :: "owner \<Rightarrow> net \<Rightarrow> config \<Rightarrow> string \<Rightarrow> error + optimizer" where
  "adam_for w m ps role =
     and_then (lookup ps role) (\<lambda>sect.
     and_then (getitem sect ''optimizer'') (\<lambda>name.
       if name = VStr ''adam'' then
         and_then (lookup ps role) (\<lambda>sect1.
         and_then (getitem sect1 ''learning_rate'') (\<lambda>lr.
         and_then (lookup ps role) (\<lambda>sect2.
         and_then (getitem sect2 ''weight_decay'') (\<lambda>wd.
           Adam w m lr wd))))
       else Inl (NameError ''Unknown optimizer name'')))"

definition configure_optimizers :: "wgan \<Rightarrow> error + (optimizer \<times> optimizer)" where
  "configure_optimizers self =
     and_then (adam_for Generator (generator_model self) (params self) ''generator'')
       (\<lambda>generator_optimizer.
     and_then (adam_for Critic (critic_model self) (params self) ''critic'')
       (\<lambda>critic_optimizer.
       Inr (generator_optimizer, critic_optimizer)))"

section \<open>WGAN: the losses\<close>

text \<open>
  Modelled from the spec: \<open>get_noise\<close> of the package \<open>models\<close> is not among the
  sources. The spec has it return a freshly sampled tensor of shape \<open>[N, Z]\<close>; the draws
  are the argument \<open>noise\<close>, and a dimension that is not a non-negative integer raises.
\<close>

definition get_noise :: "nat \<Rightarrow> pyval \<Rightarrow> (nat \<Rightarrow> real) \<Rightarrow> error + tensor" where
  "get_noise n z noise =
     (case z of
        VInt k \<Rightarrow>
          if k < 0 then Inl (RuntimeError ''negative dimension'')
          else Inr \<lparr>shape = [n, nat k], elems = map noise [0..<n * nat k], grad_deps = {}\<rparr>
      | _ \<Rightarrow> Inl (TypeError ''z_dimensions''))"

text \<open>
  Modelled from the spec: \<open>get_gradient\<close> of the package \<open>models\<close> is not among the
  sources. The spec: form the interpolated sample
  \<open>epsilon * real + (1 - epsilon) * generated\<close>, score it with the critic and take the
  gradient of the critic output with respect to the interpolated input; the computation
  must not allow gradients to leak into the generator's parameters. So the generated
  sample enters the interpolation by its values, cut off from its graph, and the
  interpolated sample reaches what \<open>epsilon\<close> and the real sample reach. Samples of
  different shapes are a shape mismatch.
\<close>

definition interpolate :: "tensor \<Rightarrow> tensor \<Rightarrow> tensor \<Rightarrow> tensor" where
  "interpolate real_t fake_t epsilon =
     \<lparr>shape = shape real_t,
      elems = map (\<lambda>(e, r, f). e * r + (1 - e) * f)
                  (zip (elems epsilon) (zip (elems real_t) (elems (detach fake_t)))),
      grad_deps = grad_deps epsilon \<union> grad_deps real_t \<union> grad_deps (detach fake_t)\<rparr>"

text \<open>
  Modelled from the spec: \<open>get_gradient\<close> itself, on the interpolated sample above. The
  critic and its differentiation are the network's \<open>input_grad\<close>; the spec has the
  gradient remain differentiable, so it reaches the critic's parameters and whatever
  the interpolated sample reaches.
\<close>

definition get_gradient :: "net \<Rightarrow> tensor \<Rightarrow> tensor \<Rightarrow> tensor \<Rightarrow> error + tensor" where
  "get_gradient crit real_t fake_t epsilon =
     (if shape epsilon = shape real_t \<and> shape fake_t = shape real_t
      then and_then (input_grad crit (interpolate real_t fake_t epsilon)) (\<lambda>g.
             Inr (g\<lparr>grad_deps := insert Critic (grad_deps (interpolate real_t fake_t epsilon))\<rparr>))
      else Inl (RuntimeError ''shape mismatch''))"

text \<open>
  Modelled from the spec: the Euclidean norm that \<open>gradient_penalty\<close> takes of the
  gradient of one example, over its feature dimensions.
\<close>

definition l2_norm :: "real list \<Rightarrow> real" where
  "l2_norm r = sqrt (sum_list (map (\<lambda>v. v * v) r))"

text \<open>
  Modelled from the spec: \<open>gradient_penalty\<close> of the package \<open>models\<close> is not among the
  sources. The spec: for each example the Euclidean norm of its gradient over the
  feature dimensions; the penalty is the mean over the batch of \<open>(norm - 1)^2\<close>. The
  length of a zero-dimensional tensor cannot be taken.
\<close>

definition gradient_penalty :: "tensor \<Rightarrow> error + scalar" where
  "gradient_penalty gradient =
     (if shape gradient = [] then Inl (TypeError ''len() of a 0-d tensor'')
      else Inr \<lparr>item = (if rows_of gradient = [] then None
                        else Some (sum_list (map (\<lambda>r. (l2_norm r - 1) * (l2_norm r - 1))
                                                 (rows_of gradient))
                                   / real (length (rows_of gradient)))),
                sdeps = grad_deps gradient\<rparr>)"

text \<open>
  A batch is the pair \<open>(x, dlls)\<close> of the features and the target. The statements that
  open \<open>train_generator\<close> (lines 88 to 99) and \<open>train_critic\<close> (lines 111 to 122) are
  the same; \<open>build_samples\<close> is that common part and returns \<open>(real_full, generated)\<close>.
\<close>

type_synonym batch = "tensor \<times> tensor"

definition build_samples ::
  "(pyval \<Rightarrow> bool) \<Rightarrow> wgan \<Rightarrow> batch \<Rightarrow> (nat \<Rightarrow> real) \<Rightarrow> error + (tensor \<times> tensor)" where
  "build_samples dev self batch noise =
     and_then (to_device dev (params self) (fst batch)) (\<lambda>x.
     and_then (to_device dev (params self) (snd batch)) (\<lambda>dlls0.
     and_then (unsqueeze dlls0) (\<lambda>dlls.
     and_then (shape0 x) (\<lambda>n.
     and_then (lookup (params self) ''z_dimensions'') (\<lambda>z.
     and_then (get_noise n z noise) (\<lambda>nz0.
     and_then (to_device dev (params self) nz0) (\<lambda>nz.
     and_then (cat x nz) (\<lambda>noized_x.
     and_then (cat dlls x) (\<lambda>real_full.
     and_then (apply_net Generator (generator_model self) noized_x) (\<lambda>g.
     and_then (cat g x) (\<lambda>generated.
       Inr (real_full, generated))))))))))))"

text \<open>\<open>WGAN.train_generator\<close>: the result dict, in insertion order.\<close>

definition train_generator ::
  "(pyval \<Rightarrow> bool) \<Rightarrow> wgan \<Rightarrow> batch \<Rightarrow> (nat \<Rightarrow> real) \<Rightarrow> error + (string \<times> scalar) list" where
  "train_generator dev self batch noise =
     and_then (build_samples dev self batch noise) (\<lambda>(real_full, generated).
     and_then (apply_net Critic (critic_model self) generated) (\<lambda>crit_fake_pred.
       let generator_loss = s_neg (mean crit_fake_pred)
       in Inr [(''G/loss'', generator_loss)]))"

text \<open>
  \<open>WGAN.train_critic\<close>. \<open>noise\<close> are the draws of \<open>get_noise\<close>, \<open>eps\<close> those of
  \<open>torch.rand\<close>. The fourth argument of the call of \<open>get_gradient\<close> is \<open>None\<close> in the
  source and has no counterpart in the spec's description of the function.
\<close>

definition train_critic ::
  "(pyval \<Rightarrow> bool) \<Rightarrow> wgan \<Rightarrow> batch \<Rightarrow> (nat \<Rightarrow> real) \<Rightarrow> (nat \<Rightarrow> real)
     \<Rightarrow> error + (string \<times> scalar) list" where
  "train_critic dev self batch noise eps =
     and_then (build_samples dev self batch noise) (\<lambda>(real_full, generated).
     and_then (apply_net Critic (critic_model self) (detach generated)) (\<lambda>crit_fake_pred.
     and_then (apply_net Critic (critic_model self) real_full) (\<lambda>crit_real_pred.
       let crit_fake_pred_mean = mean crit_fake_pred;
           crit_real_pred_mean = mean crit_real_pred;
           critic_loss = s_sub crit_fake_pred_mean crit_fake_pred_mean
       in
     and_then (shape0 real_full) (\<lambda>n.
     and_then (expand (rand_col n eps) (shape real_full)) (\<lambda>epsilon0.
     and_then (to_device dev (params self) epsilon0) (\<lambda>epsilon.
     and_then (get_gradient (critic_model self) real_full generated epsilon) (\<lambda>gradient.
     and_then (gradient_penalty gradient) (\<lambda>gp.
       Inr [(''C/loss'', s_add critic_loss (s_scale 10 gp)),
            (''C/fake_pred'', crit_fake_pred_mean),
            (''C/real_pred'', crit_real_pred_mean),
            (''gradient penalty'', gp)]))))))))"

text \<open>
  \<open>WGAN.generate\<close>, under \<open>torch.no_grad()\<close>. The batch is unpacked into \<open>x\<close> and
  \<open>_\<close>, so the local variable \<open>dlls\<close> has no value when line 156 reads it.
\<close>

definition read_local :: "string \<Rightarrow> 'a option \<Rightarrow> error + 'a" where
  "read_local name v = (case v of None \<Rightarrow> Inl (UnboundLocalError name) | Some a \<Rightarrow> Inr a)"

definition generate ::
  "(pyval \<Rightarrow> bool) \<Rightarrow> wgan \<Rightarrow> batch \<Rightarrow> (nat \<Rightarrow> real) \<Rightarrow> error + tensor" where
  "generate dev self batch noise =
     and_then (to_device dev (params self) (fst batch)) (\<lambda>x.
     and_then (read_local ''dlls'' None) (\<lambda>dlls_unbound.
     and_then (to_device dev (params self) dlls_unbound) (\<lambda>dlls0.
     and_then (unsqueeze dlls0) (\<lambda>dlls.
     and_then (shape0 x) (\<lambda>n.
     and_then (lookup (params self) ''z_dimensions'') (\<lambda>z.
     and_then (get_noise n z noise) (\<lambda>nz0.
     and_then (to_device dev (params self) nz0) (\<lambda>noize.
     and_then (cat x noize) (\<lambda>noized_x.
       apply_net_no_grad (generator_model self) noized_x)))))))))"

section \<open>Trainer\<close>

text \<open>What the metrics sink receives: \<open>log_metric(key, value)\<close> and
  \<open>log_image(key, value)\<close>, with a number (\<open>None\<close> for \<open>nan\<close>) or a rendered figure.\<close>

datatype logged = Number "real option" | Figure nat

datatype event = LogMetric string logged | LogImage string logged

text \<open>The file system as far as \<open>fit\<close> touches it: the paths that exist.\<close>

datatype entry = Directory | File

text \<open>
  The collaborators of the training loop that are not among the sources:
  \<open>adam_step\<close> is \<open>torch.optim.Adam.step\<close> (the new network from the optimizer, the
  accumulated gradients and the old network), \<open>mkdir\<close> is \<open>os.mkdir\<close> (the new file
  system, or the exception for an empty path, a missing parent, a refused permission),
  \<open>accepts_device\<close> tells which values torch accepts as a device on the machine, and
  \<open>rng k\<close> are the draws of the \<open>k\<close>-th call of the random generator.
\<close>

record collaborators =
  adam_step :: "optimizer \<Rightarrow> scalar list \<Rightarrow> net \<Rightarrow> net"
  mkdir :: "string \<Rightarrow> (string \<Rightarrow> entry option) \<Rightarrow> error + (string \<Rightarrow> entry option)"
  accepts_device :: "pyval \<Rightarrow> bool"
  rng :: "nat \<Rightarrow> nat \<Rightarrow> real"

text \<open>
  The trainer with everything its loop reads and writes: its attributes (\<open>gan_model\<close>
  is an object of the class \<open>WGAN\<close>, the model class of the sources), the gradient
  buffers of the two networks' parameters (the losses backpropagated into them since the
  last \<open>zero_grad\<close>), the local variable \<open>critic_losses\<close> of \<open>fit\<close> (unbound until the
  first critic update, and kept from one iteration to the next), the number of calls of
  the random generator, and the file system. \<open>neptune_logger = None\<close> is the default of
  the constructor.
\<close>

record trainer =
  gan_model :: wgan
  max_epoch :: int
  display_step :: int
  critic_step :: int
  save_path :: string
  freeze_generator :: bool
  neptune_logger :: "event list option"
  generator_optimizer :: optimizer
  critic_optimizer :: optimizer
  param_grads :: "owner \<Rightarrow> scalar list"
  critic_losses :: "(string \<times> scalar) list option"
  rng_calls :: nat
  filesystem :: "string \<Rightarrow> entry option"

text \<open>\<open>Trainer.__init__\<close>: the optimizers come from \<open>gan_model.configure_optimizers()\<close>.
  The attribute \<open>device\<close> is read by \<open>calculate_inference_time\<close> only and is left out.\<close>

definition Trainer_init ::
  "wgan \<Rightarrow> int \<Rightarrow> int \<Rightarrow> int \<Rightarrow> string \<Rightarrow> bool \<Rightarrow> event list option
     \<Rightarrow> (string \<Rightarrow> entry option) \<Rightarrow> error + trainer" where
  "Trainer_init gm me ds cs sp fg nl fs =
     and_then (configure_optimizers gm) (\<lambda>(gopt, copt).
       Inr \<lparr>gan_model = gm, max_epoch = me, display_step = ds, critic_step = cs,
            save_path = sp, freeze_generator = fg, neptune_logger = nl,
            generator_optimizer = gopt, critic_optimizer = copt,
            param_grads = (\<lambda>_. []), critic_losses = None, rng_calls = 0,
            filesystem = fs\<rparr>)"

text \<open>\<open>optimizer.zero_grad()\<close> clears the gradients of the optimizer's own parameters.\<close>

definition zero_grad :: "optimizer \<Rightarrow> trainer \<Rightarrow> trainer" where
  "zero_grad opt T = T\<lparr>param_grads := (param_grads T)(opt_params opt := [])\<rparr>"

text \<open>\<open>loss.backward(retain_graph=True)\<close> adds a gradient to the parameters of every
  network the loss reaches; a loss that reaches none cannot be differentiated.\<close>

definition backward :: "scalar \<Rightarrow> trainer \<Rightarrow> error + trainer" where
  "backward loss T =
     (if sdeps loss = {} then Inl (RuntimeError ''tensor does not require grad'')
      else Inr (T\<lparr>param_grads :=
                   (\<lambda>w. if w \<in> sdeps loss then param_grads T w @ [loss] else param_grads T w)\<rparr>))"

text \<open>\<open>optimizer.step()\<close> updates the optimizer's own parameters and counts the call.\<close>

definition update_net :: "collaborators \<Rightarrow> optimizer \<Rightarrow> trainer \<Rightarrow> wgan" where
  "update_net E opt T =
     (case opt_params opt of
        Generator \<Rightarrow> (gan_model T)\<lparr>generator_model :=
          adam_step E opt (param_grads T Generator) (generator_model (gan_model T))\<rparr>
      | Critic \<Rightarrow> (gan_model T)\<lparr>critic_model :=
          adam_step E opt (param_grads T Critic) (critic_model (gan_model T))\<rparr>)"

definition critic_optimizer_step :: "collaborators \<Rightarrow> trainer \<Rightarrow> trainer" where
  "critic_optimizer_step E T =
     T\<lparr>gan_model := update_net E (critic_optimizer T) T,
       critic_optimizer := (critic_optimizer T)\<lparr>step_count := Suc (step_count (critic_optimizer T))\<rparr>\<rparr>"

definition generator_optimizer_step :: "collaborators \<Rightarrow> trainer \<Rightarrow> trainer" where
  "generator_optimizer_step E T =
     T\<lparr>gan_model := update_net E (generator_optimizer T) T,
       generator_optimizer :=
         (generator_optimizer T)\<lparr>step_count := Suc (step_count (generator_optimizer T))\<rparr>\<rparr>"

text \<open>\<open>self.neptune_logger.log_metric(key, value)\<close> and \<open>log_image\<close>: the method is
  looked up first (on the default \<open>None\<close> that raises), then the argument is evaluated.\<close>

definition log_metric :: "string \<Rightarrow> error + logged \<Rightarrow> trainer \<Rightarrow> error + trainer" where
  "log_metric key arg T =
     (case neptune_logger T of
        None \<Rightarrow> Inl (AttributeError ''log_metric'')
      | Some evs \<Rightarrow>
          and_then arg (\<lambda>v. Inr (T\<lparr>neptune_logger := Some (evs @ [LogMetric key v])\<rparr>)))"

definition log_image :: "string \<Rightarrow> error + logged \<Rightarrow> trainer \<Rightarrow> error + trainer" where
  "log_image key arg T =
     (case neptune_logger T of
        None \<Rightarrow> Inl (AttributeError ''log_image'')
      | Some evs \<Rightarrow>
          and_then arg (\<lambda>v. Inr (T\<lparr>neptune_logger := Some (evs @ [LogImage key v])\<rparr>)))"

text \<open>\<open>for key, value in losses.items(): self.neptune_logger.log_metric(key, value.item())\<close>.\<close>

fun log_losses :: "(string \<times> scalar) list \<Rightarrow> trainer \<Rightarrow> error + trainer" where
  "log_losses [] T = Inr T"
| "log_losses ((key, v) # rest) T =
     and_then (log_metric key (Inr (Number (item v))) T) (log_losses rest)"

text \<open>One pass of the inner loop (lines 68 to 74).\<close>

definition critic_update :: "collaborators \<Rightarrow> batch \<Rightarrow> trainer \<Rightarrow> error + trainer" where
  "critic_update E batch T =
     (let T1 = zero_grad (critic_optimizer T) T
      in and_then (train_critic (accepts_device E) (gan_model T1) batch (rng E (rng_calls T1))
                     (rng E (rng_calls T1 + 1))) (\<lambda>losses.
         let T2 = T1\<lparr>critic_losses := Some losses, rng_calls := rng_calls T1 + 2\<rparr>
         in and_then (lookup losses ''C/loss'') (\<lambda>critic_total_loss.
            and_then (backward critic_total_loss T2) (\<lambda>T3.
              Inr (critic_optimizer_step E T3)))))"

text \<open>\<open>for _ in range(self.critic_step)\<close>, with the number of passes left.\<close>

fun critic_loop :: "collaborators \<Rightarrow> nat \<Rightarrow> batch \<Rightarrow> trainer \<Rightarrow> error + trainer" where
  "critic_loop E 0 batch T = Inr T"
| "critic_loop E (Suc k) batch T =
     and_then (critic_update E batch T) (critic_loop E k batch)"

text \<open>Lines 76 to 85: the generator's gradients are cleared in any case; the update
  itself is skipped when \<open>freeze_generator\<close> is set.\<close>

definition generator_update :: "collaborators \<Rightarrow> batch \<Rightarrow> trainer \<Rightarrow> error + trainer" where
  "generator_update E batch T =
     (let T1 = zero_grad (generator_optimizer T) T
      in if \<not> freeze_generator T1 then
           and_then (train_generator (accepts_device E) (gan_model T1) batch
                       (rng E (rng_calls T1))) (\<lambda>losses.
           let T2 = T1\<lparr>rng_calls := rng_calls T1 + 1\<rparr>
           in and_then (lookup losses ''G/loss'') (\<lambda>generator_total_loss.
              and_then (backward generator_total_loss T2) (\<lambda>T3.
                log_losses losses (generator_optimizer_step E T3))))
         else Inr T1)"

text \<open>The decimal digits of a number, as an f-string prints it.\<close>

fun str_nat :: "nat \<Rightarrow> string" where
  "str_nat n =
     (if n < 10 then [char_of (48 + n)]
      else str_nat (n div 10) @ [char_of (48 + n mod 10)])"

text \<open>\<open>os.path.join(save_path, name)\<close> for a name that does not start with a slash.\<close>

definition path_join :: "string \<Rightarrow> string \<Rightarrow> string" where
  "path_join dir name =
     (if dir = [] \<or> last dir = CHR ''/'' then dir @ name else dir @ ''/'' @ name)"

text \<open>
  \<open>self.gan_model.save_models\<close> and \<open>self.gan_model.evaluate\<close>: the class \<open>WGAN\<close>
  defines the methods \<open>configure_optimizers\<close>, \<open>create_generator\<close>, \<open>create_critic\<close>,
  \<open>train_generator\<close>, \<open>train_critic\<close>, \<open>generate\<close> and \<open>get_histograms\<close> and sets the
  attributes \<open>params\<close>, \<open>generator_model\<close> and \<open>critic_model\<close>. Reading any other
  attribute of a \<open>WGAN\<close> raises \<open>AttributeError\<close>, so neither read yields a method that
  could be called.
\<close>

definition save_models :: "error + (string \<Rightarrow> nat \<Rightarrow> trainer \<Rightarrow> error + trainer)" where
  "save_models = Inl (AttributeError ''save_models'')"

definition evaluate ::
  "error + (wgan \<Rightarrow> batch list option \<Rightarrow> error + (string \<times> logged) list)" where
  "evaluate = Inl (AttributeError ''evaluate'')"

text \<open>\<open>if not os.path.exists(self.save_path): os.mkdir(self.save_path)\<close>.\<close>

definition ensure_dir :: "collaborators \<Rightarrow> trainer \<Rightarrow> error + trainer" where
  "ensure_dir E T =
     (if filesystem T (save_path T) = None
      then and_then (mkdir E (save_path T) (filesystem T)) (\<lambda>fs. Inr (T\<lparr>filesystem := fs\<rparr>))
      else Inr T)"

text \<open>Lines 90 to 100. Python's \<open>%\<close> raises for a zero divisor and otherwise is the
  floored remainder, as \<open>mod\<close> on \<open>int\<close> is.\<close>

definition checkpoint_name :: "nat \<Rightarrow> nat \<Rightarrow> string" where
  "checkpoint_name epoch iteration =
     ''epoch_'' @ str_nat epoch @ ''_iter_'' @ str_nat iteration @ ''.pt''"

definition display ::
  "collaborators \<Rightarrow> batch list option \<Rightarrow> nat \<Rightarrow> nat \<Rightarrow> trainer \<Rightarrow> error + trainer" where
  "display E validation_loader epoch iteration T =
     (if display_step T = 0 then Inl ZeroDivisionError
      else if int iteration mod display_step T = 0 then
        (let name = checkpoint_name epoch iteration
         in and_then (ensure_dir E T) (\<lambda>T1.
            let save_path_with_iter = path_join (save_path T1) name
            in and_then save_models (\<lambda>save.
               and_then (save save_path_with_iter epoch T1) (\<lambda>T2.
               and_then evaluate (\<lambda>eval.
               and_then (eval (gan_model T2) validation_loader) (\<lambda>outputs.
               and_then (log_image ''Histograms'' (lookup outputs ''histogram'') T2) (\<lambda>T3.
                 log_metric ''rocauc'' (lookup outputs ''rocauc'') T3)))))))
      else Inr T)"

text \<open>The body of the loop over the batches (lines 67 to 100).\<close>

definition outer_iteration ::
  "collaborators \<Rightarrow> batch list option \<Rightarrow> nat \<Rightarrow> nat \<Rightarrow> batch \<Rightarrow> trainer \<Rightarrow> error + trainer" where
  "outer_iteration E validation_loader epoch iteration batch T =
     and_then (critic_loop E (nat (critic_step T)) batch T) (\<lambda>T1.
     and_then (generator_update E batch T1) (\<lambda>T2.
     and_then (read_local ''critic_losses'' (critic_losses T2)) (\<lambda>losses.
     and_then (log_losses losses T2) (\<lambda>T3.
       display E validation_loader epoch iteration T3))))"

text \<open>\<open>for iteration, batch in enumerate(train_loader)\<close>, from the given index on.\<close>

fun run_epoch ::
  "collaborators \<Rightarrow> batch list option \<Rightarrow> nat \<Rightarrow> nat \<Rightarrow> batch list \<Rightarrow> trainer \<Rightarrow> error + trainer" where
  "run_epoch E vl epoch iteration [] T = Inr T"
| "run_epoch E vl epoch iteration (batch # rest) T =
     and_then (outer_iteration E vl epoch iteration batch T)
       (run_epoch E vl epoch (Suc iteration) rest)"

text \<open>\<open>for epoch in range(self.max_epoch)\<close>, with the number of epochs left; iterating
  over the default \<open>train_loader = None\<close> raises. \<open>fit\<close> never reads its parameter
  \<open>start\<close>.\<close>

fun run_epochs ::
  "collaborators \<Rightarrow> batch list option \<Rightarrow> batch list option \<Rightarrow> nat \<Rightarrow> nat \<Rightarrow> trainer
     \<Rightarrow> error + trainer" where
  "run_epochs E train_loader vl 0 epoch T = Inr T"
| "run_epochs E train_loader vl (Suc k) epoch T =
     (case train_loader of
        None \<Rightarrow> Inl (TypeError ''NoneType is not iterable'')
      | Some batches \<Rightarrow>
          and_then (run_epoch E vl epoch 0 batches T)
            (run_epochs E train_loader vl k (Suc epoch)))"

definition fit ::
  "collaborators \<Rightarrow> batch list option \<Rightarrow> batch list option \<Rightarrow> trainer \<Rightarrow> error + trainer" where
  "fit E train_loader validation_loader T =
     run_epochs E train_loader validation_loader (nat (max_epoch T)) 0 T"

section \<open>Concrete inputs\<close>

text \<open>
  A small configuration, two networks and a batch on which the definitions above are
  evaluated below. The generator returns one zero per example. The critic
  \<open>shifted_critic c\<close> scores an example with first column \<open>v\<close> by \<open>v * v / 2 + c\<close>, so
  the gradient of its summed output is \<open>v\<close> in the first column and 0 elsewhere, and
  depends on the point at which it is taken. The machine has the device \<open>'cpu'\<close> only.
\<close>

definition cpu_only :: "pyval \<Rightarrow> bool" where
  "cpu_only d = (d = VStr ''cpu'')"

definition example_section :: pyval where
  "example_section =
     VDict [(''params'', VDict []), (''optimizer'', VStr ''adam''),
            (''learning_rate'', VInt 1), (''weight_decay'', VInt 0),
            (''checkpoint_path'', VNone)]"

definition example_config :: config where
  "example_config =
     [(''generator_architecture'', VStr ''fcn''),
      (''critic_architecture'', VStr ''fcn''),
      (''generator_model_type'', VStr ''g''),
      (''critic_model_type'', VStr ''c''),
      (''device'', VStr ''cpu''),
      (''z_dimensions'', VInt 1),
      (''generator'', example_section),
      (''critic'', example_section)]"

definition zero_generator :: net where
  "zero_generator =
     \<lparr>forward = (\<lambda>t. Inr \<lparr>shape = [hd (shape t), 1], elems = replicate (hd (shape t)) 0,
                           grad_deps = {}\<rparr>),
      input_grad = (\<lambda>t. Inl (ExternalError ''not differentiated'')),
      has_parameters = True\<rparr>"

definition shifted_critic :: "real \<Rightarrow> net" where
  "shifted_critic c =
     \<lparr>forward = (\<lambda>t. Inr \<lparr>shape = [hd (shape t), 1],
                           elems = map (\<lambda>r. hd r * hd r / 2 + c) (rows_of t),
                           grad_deps = {}\<rparr>),
      input_grad = (\<lambda>t. Inr \<lparr>shape = shape t,
                              elems = concat (map (\<lambda>r. hd r # replicate (length r - 1) 0)
                                                  (rows_of t)),
                              grad_deps = {}\<rparr>),
      has_parameters = True\<rparr>"

definition example_factory :: factory where
  "example_factory =
     \<lparr>create_node_model = (\<lambda>p mt. Inr zero_generator),
      create_fcn_model = (\<lambda>p mt. Inr (shifted_critic 0)),
      load_checkpoint = (\<lambda>path m. Inr m)\<rparr>"

definition example_wgan :: "real \<Rightarrow> wgan" where
  "example_wgan c =
     \<lparr>params = example_config, generator_model = zero_generator,
      critic_model = shifted_critic c\<rparr>"

definition example_x :: tensor where
  "example_x = \<lparr>shape = [2, 1], elems = [5, 7], grad_deps = {}\<rparr>"

definition example_dlls :: tensor where
  "example_dlls = \<lparr>shape = [2], elems = [2, 4], grad_deps = {}\<rparr>"

definition example_batch :: batch where
  "example_batch = (example_x, example_dlls)"

text \<open>The same batch with the target as a column of shape \<open>[2, 1]\<close>.\<close>

definition column_dlls :: tensor where
  "column_dlls = \<lparr>shape = [2, 1], elems = [2, 4], grad_deps = {}\<rparr>"

definition column_batch :: batch where
  "column_batch = (example_x, column_dlls)"

definition zero_draws :: "nat \<Rightarrow> real" where
  "zero_draws i = 0"

definition half_draws :: "nat \<Rightarrow> real" where
  "half_draws i = 1 / 2"

definition example_critic_loss :: scalar where
  "example_critic_loss = \<lparr>item = Some 5, sdeps = {Critic}\<rparr>"

definition example_penalty :: scalar where
  "example_penalty = \<lparr>item = Some (1 / 2), sdeps = {Critic}\<rparr>"

definition example_generator_loss :: scalar where
  "example_generator_loss = \<lparr>item = Some (- 1), sdeps = {Critic, Generator}\<rparr>"

definition example_critic_result :: "real \<Rightarrow> (string \<times> scalar) list" where
  "example_critic_result c =
     [(''C/loss'', example_critic_loss),
      (''C/fake_pred'', \<lparr>item = Some c, sdeps = {Critic}\<rparr>),
      (''C/real_pred'', \<lparr>item = Some (5 + c), sdeps = {Critic}\<rparr>),
      (''gradient penalty'', example_penalty)]"

text \<open>Collaborators of the loop: the optimizer step leaves the generator as it is and
  replaces the critic by \<open>shifted_critic\<close> of the number of accumulated gradients;
  \<open>os.mkdir\<close> succeeds.\<close>

definition example_collaborators :: collaborators where
  "example_collaborators =
     \<lparr>adam_step = (\<lambda>opt grads m.
        case opt_params opt of
          Generator \<Rightarrow> m
        | Critic \<Rightarrow> shifted_critic (real (length grads))),
      mkdir = (\<lambda>p fs. Inr (fs(p \<mapsto> Directory))),
      accepts_device = cpu_only,
      rng = (\<lambda>k. half_draws)\<rparr>"

definition example_optimizer :: "owner \<Rightarrow> nat \<Rightarrow> optimizer" where
  "example_optimizer w n =
     \<lparr>opt_params = w, learning_rate = VInt 1, weight_decay = VInt 0, step_count = n\<rparr>"

definition example_trainer :: trainer where
  "example_trainer =
     \<lparr>gan_model = example_wgan 0, max_epoch = 1, display_step = 2, critic_step = 2,
      save_path = ''ckpt'', freeze_generator = False, neptune_logger = Some [],
      generator_optimizer = example_optimizer Generator 0,
      critic_optimizer = example_optimizer Critic 0,
      param_grads = (\<lambda>w. []), critic_losses = None, rng_calls = 0,
      filesystem = (\<lambda>p. None)\<rparr>"

text \<open>The trainer after one critic update, after two, after the generator update that
  follows them, and after a whole iteration whose index is odd.\<close>

definition example_after_critic_update :: trainer where
  "example_after_critic_update =
     example_trainer
       \<lparr>gan_model := example_wgan 1,
        critic_optimizer := example_optimizer Critic 1,
        param_grads := (\<lambda>w. case w of
                          Generator \<Rightarrow> []
                        | Critic \<Rightarrow> [example_critic_loss]),
        critic_losses := Some (example_critic_result 0),
        rng_calls := 2\<rparr>"

definition example_after_critic_loop :: trainer where
  "example_after_critic_loop =
     example_trainer
       \<lparr>gan_model := example_wgan 1,
        critic_optimizer := example_optimizer Critic 2,
        param_grads := (\<lambda>w. case w of
                          Generator \<Rightarrow> []
                        | Critic \<Rightarrow> [example_critic_loss]),
        critic_losses := Some (example_critic_result 1),
        rng_calls := 4\<rparr>"

definition example_after_generator_update :: trainer where
  "example_after_generator_update =
     example_after_critic_loop
       \<lparr>generator_optimizer := example_optimizer Generator 1,
        param_grads := (\<lambda>w. case w of
                          Generator \<Rightarrow> [example_generator_loss]
                        | Critic \<Rightarrow> [example_critic_loss, example_generator_loss]),
        neptune_logger := Some [LogMetric ''G/loss'' (Number (Some (- 1)))],
        rng_calls := 5\<rparr>"

definition example_after :: trainer where
  "example_after =
     example_after_generator_update
       \<lparr>neptune_logger := Some
          [LogMetric ''G/loss'' (Number (Some (- 1))),
           LogMetric ''C/loss'' (Number (Some 5)),
           LogMetric ''C/fake_pred'' (Number (Some 1)),
           LogMetric ''C/real_pred'' (Number (Some 6)),
           LogMetric ''gradient penalty'' (Number (Some (1 / 2)))]\<rparr>"

section \<open>Sequencing and lookups\<close>

lemma and_then_Inl [simp]: "and_then (Inl e) f = Inl e"
  by (simp add: and_then_def)

lemma and_then_Inr [simp]: "and_then (Inr v) f = f v"
  by (simp add: and_then_def)

lemma and_then_eq_Inr:
  "and_then m f = Inr y \<longleftrightarrow> (\<exists>v. m = Inr v \<and> f v = Inr y)"
  by (cases m) simp_all

lemma and_thenE:
  assumes "and_then m f = Inr y"
  obtains v where "m = Inr v" and "f v = Inr y"
  using assms by (auto simp: and_then_eq_Inr)

section \<open>Construction\<close>

lemma of_char_lower_char:
  "(of_char (lower_char c) :: nat) =
     (if (65 \<le> (of_char c :: nat) \<and> (of_char c :: nat) \<le> 90) \<or>
         (192 \<le> (of_char c :: nat) \<and> (of_char c :: nat) \<le> 214) \<or>
         (216 \<le> (of_char c :: nat) \<and> (of_char c :: nat) \<le> 222)
      then of_char c + 32 else of_char c)"
  unfolding lower_char_def Let_def
  by (auto simp: of_char_of)

lemma lower_char_not_capital: "(of_char (lower_char c) :: nat) \<notin> {65..90}"
  unfolding of_char_lower_char by auto

text \<open>No lower-cased string contains the capital letter N, which both literals of
  \<open>create_generator\<close> do.\<close>

lemma lower_has_no_N: "CHR ''N'' \<notin> set (lower s)"
proof
  assume "CHR ''N'' \<in> set (lower s)"
  then obtain c where "lower_char c = CHR ''N''"
    by (auto simp: lower_def)
  then have "(of_char (lower_char c) :: nat) = 78" by simp
  with lower_char_not_capital [of c] show False by simp
qed

lemma lower_not_NODE: "lower s \<noteq> ''NODE''"
  using lower_has_no_N [of s] by auto

lemma lower_not_FCN: "lower s \<noteq> ''FCN''"
  using lower_has_no_N [of s] by auto

lemma str_lower_not_NODE: "str_lower v \<noteq> Inr ''NODE''"
  by (cases v) (simp_all add: str_lower_def lower_not_NODE)

lemma str_lower_not_FCN: "str_lower v \<noteq> Inr ''FCN''"
  by (cases v) (simp_all add: str_lower_def lower_not_FCN)

text \<open>Both tests of \<open>create_generator\<close> are therefore false whenever they are reached,
  and only the lookups and the final \<open>raise\<close> remain.\<close>

lemma create_generator_cases:
  "create_generator F ps =
     and_then (lookup ps ''generator_architecture'') (\<lambda>ga.
     and_then (str_lower ga) (\<lambda>gl.
     and_then (lookup ps ''critic_architecture'') (\<lambda>ca.
     and_then (str_lower ca) (\<lambda>cl.
       Inl (NameError (format_str ''Unknown generator architecture: '' ga))))))"
proof -
  have node: "and_then (str_lower v) (\<lambda>l. if l = ''NODE'' then f l else g l) =
              and_then (str_lower v) g" for v and f g :: "string \<Rightarrow> error + net"
    using str_lower_not_NODE [of v] by (cases "str_lower v") auto
  have fcn: "and_then (str_lower v) (\<lambda>l. if l = ''FCN'' then f l else g l) =
             and_then (str_lower v) g" for v and f g :: "string \<Rightarrow> error + net"
    using str_lower_not_FCN [of v] by (cases "str_lower v") auto
  show ?thesis
    unfolding create_generator_def by (simp add: node fcn)
qed

lemma create_generator_fails: "create_generator F ps \<noteq> Inr m"
  unfolding create_generator_cases
  by (auto simp: and_then_eq_Inr)

text \<open>
  C3. For every configuration and every model factory, \<open>WGAN.__init__\<close> raises and no
  object is constructed: the lower-cased generator architecture never equals \<open>"NODE"\<close>
  and the lower-cased critic architecture never equals \<open>"FCN"\<close>. When both architecture
  entries are strings, the exception is the \<open>NameError\<close> of the \<open>else\<close> branch (a
  missing entry raises \<open>KeyError\<close>, one that is no string \<open>AttributeError\<close>).
\<close>

theorem WGAN_init_never_succeeds:
  "(\<forall>w. WGAN_init F cfg \<noteq> Inr w) \<and>
   (\<forall>g c. map_of cfg ''generator_architecture'' = Some (VStr g) \<longrightarrow>
          map_of cfg ''critic_architecture'' = Some (VStr c) \<longrightarrow>
          WGAN_init F cfg = Inl (NameError (''Unknown generator architecture: '' @ g)))"
  unfolding WGAN_init_def create_generator_cases
  by (auto simp: and_then_eq_Inr lookup_def str_lower_def format_str_def)

theorem WGAN_init_never_succeeds_witness:
  "map_of example_config ''generator_architecture'' = Some (VStr ''fcn'') \<and>
   map_of example_config ''critic_architecture'' = Some (VStr ''fcn'') \<and>
   WGAN_init example_factory example_config =
     Inl (NameError ''Unknown generator architecture: fcn'')"
proof -
  have g: "map_of example_config ''generator_architecture'' = Some (VStr ''fcn'')"
    and c: "map_of example_config ''critic_architecture'' = Some (VStr ''fcn'')"
    by (simp_all add: example_config_def)
  with WGAN_init_never_succeeds [of example_factory example_config] show ?thesis
    by simp
qed

text \<open>
  C2. Construction is meant to resolve each architecture name, whatever its letter
  case, to NODE or FCN and to build that network. On the configuration that names
  \<open>fcn\<close> for both networks, \<open>create_critic\<close> builds the FCN critic, while
  \<open>create_generator\<close> raises the unknown-architecture \<open>NameError\<close> for the same name.
\<close>

theorem create_generator_rejects_fcn:
  "create_generator example_factory example_config =
     Inl (NameError ''Unknown generator architecture: fcn'') \<and>
   create_critic example_factory example_config = Inr (shifted_critic 0)"
proof -
  have "lower ''fcn'' = ''fcn''"
    by code_simp
  then show ?thesis
    unfolding create_generator_cases
    by (simp add: create_critic_def load_if_configured_def example_factory_def
        example_config_def example_section_def lookup_def getitem_def str_lower_def
        format_str_def)
qed

section \<open>Shapes of the samples\<close>

lemma to_device_Inr: "to_device dev ps t = Inr u \<Longrightarrow> u = t"
  by (auto simp: to_device_def and_then_eq_Inr split: if_splits)

lemma unsqueeze_1d:
  assumes "unsqueeze t = Inr u" and "shape t = [n]"
  shows "shape u = [n, 1]"
  using assms by (auto simp: unsqueeze_def)

lemma cat_shape_2d:
  assumes "cat a b = Inr t" and "shape a = [n, p]" and "shape b = [m, q]"
  shows "shape t = [n, p + q]"
  using assms by (simp add: cat_def skipped_def split: if_splits) auto

lemma cat_2d:
  assumes "shape a = [n, p]" and "shape b = [n, q]"
  shows "\<exists>t. cat a b = Inr t \<and> shape t = [n, p + q]"
  using assms by (simp add: cat_def skipped_def)

lemma build_samples_real_shape:
  assumes "build_samples dev self (x, dlls) noise = Inr (real_full, generated)"
    and "shape x = [N, F]" and "shape dlls = [N]"
  shows "shape real_full = [N, 1 + F]"
proof -
  from assms(1) obtain x1 d0 d1 where
    "to_device dev (params self) x = Inr x1" "to_device dev (params self) dlls = Inr d0"
    "unsqueeze d0 = Inr d1" "cat d1 x1 = Inr real_full"
    unfolding build_samples_def by (auto simp: and_then_eq_Inr)
  with assms(2,3) show ?thesis
    using cat_shape_2d [of d1 x1 real_full N 1 N F] unsqueeze_1d [of d0 d1 N]
    by (auto dest!: to_device_Inr)
qed

lemma replicate_2: "replicate 2 v = [v, v]"
  by (simp add: numeral_2_eq_2)

lemmas tensor_ops = replicate_2 to_device_def cpu_only_def lookup_def unsqueeze_def shape0_def
  get_noise_def cat_def skipped_def rows_of_def apply_net_def detach_def mean_def upt_rec

lemma example_samples:
  "build_samples cpu_only (example_wgan c) example_batch noise =
     Inr (\<lparr>shape = [2, 2], elems = [2, 5, 4, 7], grad_deps = {}\<rparr>,
          \<lparr>shape = [2, 2], elems = [0, 5, 0, 7], grad_deps = {Generator}\<rparr>)"
  by (simp add: build_samples_def example_wgan_def example_batch_def example_x_def
      example_dlls_def example_config_def zero_generator_def tensor_ops)

text \<open>
  C10, as the spec states it: for features of shape \<open>[N, F]\<close> and a target of shape
  \<open>[N]\<close> or \<open>[N, 1]\<close>, the real and the generated sample both have shape \<open>[N, 1 + F]\<close>.
  For a target of shape \<open>[2, 1]\<close> no sample is built: \<open>unsqueeze\<close> makes the target
  \<open>[2, 1, 1]\<close>, and \<open>torch.cat\<close> with the two-dimensional features raises.
\<close>

theorem column_target_counterexample:
  "shape (fst column_batch) = [2, 1] \<and> shape (snd column_batch) = [2, 1] \<and>
   build_samples cpu_only (example_wgan 0) column_batch zero_draws =
     Inl (RuntimeError ''cat: dimensions'')"
  by (simp add: build_samples_def example_wgan_def column_batch_def example_x_def
      column_dlls_def example_config_def zero_generator_def tensor_ops)

text \<open>
  C10, amended: for features of shape \<open>[N, F]\<close> and a target of shape \<open>[N]\<close>, with a
  configuration that holds under \<open>device\<close> a device that torch accepts on the machine
  and under \<open>z_dimensions\<close> a non-negative integer \<open>Z\<close>, and a generator that returns
  shape \<open>[N, 1]\<close> on inputs of shape \<open>[N, F + Z]\<close>, the statements shared by
  \<open>train_generator\<close> and \<open>train_critic\<close> build a real and a generated sample that both
  have shape \<open>[N, 1 + F]\<close>.
\<close>

theorem samples_same_shape:
  assumes dv: "map_of (params self) ''device'' = Some d" and ok: "dev d"
    and zd: "map_of (params self) ''z_dimensions'' = Some (VInt z)" and z: "0 \<le> z"
    and x: "shape x = [N, F]" and dlls: "shape dlls = [N]"
    and gen: "\<And>t. shape t = [N, F + nat z] \<Longrightarrow>
                \<exists>y. forward (generator_model self) t = Inr y \<and> shape y = [N, 1]"
  shows "\<exists>real_full generated.
           build_samples dev self (x, dlls) noise = Inr (real_full, generated) \<and>
           shape real_full = [N, 1 + F] \<and> shape generated = [N, 1 + F]"
proof -
  let ?nz = "\<lparr>shape = [N, nat z], elems = map noise [0..<N * nat z], grad_deps = {}\<rparr>"
  let ?d = "dlls\<lparr>shape := [N, 1]\<rparr>"
  from x obtain noized_x where nx: "cat x ?nz = Inr noized_x"
    and nxs: "shape noized_x = [N, F + nat z]"
    using cat_2d [of x N F ?nz "nat z"] by auto
  from x obtain real_full where rf: "cat ?d x = Inr real_full"
    and rfs: "shape real_full = [N, 1 + F]"
    using cat_2d [of ?d N 1 x F] by auto
  from gen [OF nxs] obtain y where y: "forward (generator_model self) noized_x = Inr y"
    and ys: "shape y = [N, 1]"
    by blast
  let ?g = "y\<lparr>grad_deps := insert Generator (grad_deps noized_x)\<rparr>"
  from x ys obtain generated where g: "cat ?g x = Inr generated"
    and gs: "shape generated = [N, 1 + F]"
    using cat_2d [of ?g N 1 x F] by auto
  have "build_samples dev self (x, dlls) noise = Inr (real_full, generated)"
    using dv ok zd z x dlls nx rf y g
    by (simp add: build_samples_def to_device_def lookup_def unsqueeze_def shape0_def
        get_noise_def apply_net_def)
  with rfs gs show ?thesis by blast
qed

theorem samples_same_shape_witness:
  "shape example_x = [2, 1] \<and> shape example_dlls = [2] \<and>
   map_of (params (example_wgan 0)) ''device'' = Some (VStr ''cpu'') \<and>
   cpu_only (VStr ''cpu'') \<and>
   (\<exists>real_full generated.
      build_samples cpu_only (example_wgan 0) (example_x, example_dlls) zero_draws =
        Inr (real_full, generated) \<and>
      shape real_full = [2, 2] \<and> shape generated = [2, 2])"
proof -
  have dv: "map_of (params (example_wgan 0)) ''device'' = Some (VStr ''cpu'')"
    and zd: "map_of (params (example_wgan 0)) ''z_dimensions'' = Some (VInt 1)"
    by (simp_all add: example_wgan_def example_config_def)
  have ok: "cpu_only (VStr ''cpu'')"
    by (simp add: cpu_only_def)
  have x: "shape example_x = [2, 1]" and dlls: "shape example_dlls = [2]"
    by (simp_all add: example_x_def example_dlls_def)
  have gen: "\<exists>y. forward (generator_model (example_wgan 0)) t = Inr y \<and> shape y = [2, 1]"
    if "shape t = [2, 1 + nat 1]" for t
    using that by (simp add: example_wgan_def zero_generator_def)
  from samples_same_shape [where dev = cpu_only and noise = zero_draws, OF dv ok zd _ x dlls gen]
    x dlls dv ok
  show ?thesis by (simp add: numeral_2_eq_2)
qed

section \<open>The generator loss\<close>

lemma example_train_generator:
  "train_generator cpu_only (example_wgan c) example_batch noise =
     Inr [(''G/loss'', \<lparr>item = Some (- c), sdeps = {Critic, Generator}\<rparr>)]"
  unfolding train_generator_def example_samples
  by (simp add: example_wgan_def shifted_critic_def tensor_ops s_neg_def Let_def)

section \<open>The critic loss\<close>

lemma example_train_critic:
  "train_critic cpu_only (example_wgan c) example_batch noise half_draws =
     Inr (example_critic_result c)"
  unfolding train_critic_def example_samples
  by (simp add: example_wgan_def example_config_def shifted_critic_def tensor_ops
      expand_def rand_col_def get_gradient_def interpolate_def gradient_penalty_def l2_norm_def
      s_sub_def s_add_def s_scale_def Let_def example_critic_result_def
      example_critic_loss_def example_penalty_def half_draws_def)

text \<open>Whatever the inputs, the loss that \<open>train_critic\<close> returns is ten times the
  penalty (or \<open>nan\<close>): the score of the real sample has no part in it.\<close>

lemma critic_loss_is_ten_times_penalty:
  assumes "train_critic dev self batch noise eps = Inr r"
  shows "\<exists>fake real_s gp.
           r = [(''C/loss'',
                 \<lparr>item = (case (item fake, item gp) of
                            (Some u, Some g) \<Rightarrow> Some (10 * g) | _ \<Rightarrow> None),
                  sdeps = sdeps fake \<union> sdeps gp\<rparr>),
                (''C/fake_pred'', fake), (''C/real_pred'', real_s),
                (''gradient penalty'', gp)]"
proof -
  from assms obtain fake real_s gp where
    r: "r = [(''C/loss'', s_add (s_sub fake fake) (s_scale 10 gp)),
             (''C/fake_pred'', fake), (''C/real_pred'', real_s), (''gradient penalty'', gp)]"
    unfolding train_critic_def by (auto simp: and_then_eq_Inr Let_def)
  have "s_add (s_sub fake fake) (s_scale 10 gp) =
          \<lparr>item = (case (item fake, item gp) of
                     (Some u, Some g) \<Rightarrow> Some (10 * g) | _ \<Rightarrow> None),
           sdeps = sdeps fake \<union> sdeps gp\<rparr>"
    by (cases "item fake"; cases "item gp") (simp_all add: s_sub_def s_add_def s_scale_def)
  with r show ?thesis by blast
qed

text \<open>
  C1. The spec has the critic loss be the mean score of the real sample minus the mean
  score of the generated sample, plus ten times the penalty. On the concrete inputs the
  mean real score is 5, the mean fake score 0 and the penalty 1/2, so that loss would
  be 10; \<open>train_critic\<close> returns 5 under \<open>'C/loss'\<close>: the fake mean minus itself, plus
  ten times the penalty.
\<close>

theorem critic_loss_at_example:
  "train_critic cpu_only (example_wgan 0) example_batch zero_draws half_draws =
     Inr [(''C/loss'', \<lparr>item = Some 5, sdeps = {Critic}\<rparr>),
          (''C/fake_pred'', \<lparr>item = Some 0, sdeps = {Critic}\<rparr>),
          (''C/real_pred'', \<lparr>item = Some 5, sdeps = {Critic}\<rparr>),
          (''gradient penalty'', \<lparr>item = Some (1 / 2), sdeps = {Critic}\<rparr>)]"
  by (simp add: example_train_critic example_critic_result_def example_critic_loss_def
      example_penalty_def)

section \<open>The gradient penalty\<close>

lemma mean_of_squares_nonneg:
  "0 \<le> sum_list (map (\<lambda>r. (f r - 1) * (f r - 1)) (rs :: 'a list)) / real (length rs)"
  by (intro divide_nonneg_nonneg sum_list_nonneg) auto

text \<open>\<open>torch.rand(N, 1).expand([N, D])\<close>: row \<open>i\<close> holds the draw of example \<open>i\<close> in
  each of its \<open>D\<close> columns.\<close>

lemma expand_rand_col:
  "expand (rand_col N eps) [N, D] =
     Inr \<lparr>shape = [N, D], elems = concat (map (\<lambda>i. replicate D (eps i)) [0..<N]),
          grad_deps = {}\<rparr>"
proof -
  have h: "map (\<lambda>i. replicate D (map eps [0..<N] ! (if N = Suc 0 then 0 else i))) [0..<N] =
           map (\<lambda>i. replicate D (eps i)) [0..<N]"
    by (rule map_cong) auto
  show ?thesis
    by (simp add: expand_def rand_col_def h)
qed

text \<open>
  C8. In \<open>train_critic\<close>, for features of shape \<open>[N, F]\<close> and a target of shape \<open>[N]\<close>:
  the critic is differentiated at the sample whose elements are
  \<open>e * real + (1 - e) * generated\<close>, where \<open>e\<close> is the draw of the example, the same in
  all \<open>1 + F\<close> columns of its row; the value returned under \<open>'gradient penalty'\<close> is the
  mean, over the rows \<open>g\<close> of that gradient, of \<open>(sqrt (sum of the squares of g) - 1)^2\<close>
  (\<open>nan\<close> when there is no row); and whenever it is a number, it is not negative.
  The theorem holds for every draw; that the draws are uniform in \<open>[0, 1)\<close> is a
  property of the random generator.
\<close>

theorem gradient_penalty_value:
  assumes "train_critic dev self (x, dlls) noise eps = Inr r"
    and "shape x = [N, F]" and "shape dlls = [N]"
  shows "\<exists>real_full generated g gp.
           build_samples dev self (x, dlls) noise = Inr (real_full, generated) \<and>
           input_grad (critic_model self)
             \<lparr>shape = [N, 1 + F],
              elems = map (\<lambda>(e, r, f). e * r + (1 - e) * f)
                        (zip (concat (map (\<lambda>i. replicate (1 + F) (eps i)) [0..<N]))
                             (zip (elems real_full) (elems generated))),
              grad_deps = grad_deps real_full\<rparr> = Inr g \<and>
           map_of r ''gradient penalty'' = Some gp \<and>
           item gp =
             (if rows_of g = [] then None
              else Some (sum_list (map (\<lambda>row. (sqrt (sum_list (map (\<lambda>v. v * v) row)) - 1)
                                              * (sqrt (sum_list (map (\<lambda>v. v * v) row)) - 1))
                                       (rows_of g))
                         / real (length (rows_of g)))) \<and>
           (\<forall>v. item gp = Some v \<longrightarrow> 0 \<le> v)"
proof -
  from assms(1) obtain real_full generated epsilon0 epsilon gradient gp n where
    bs: "build_samples dev self (x, dlls) noise = Inr (real_full, generated)"
    and n: "shape0 real_full = Inr n"
    and ex: "expand (rand_col n eps) (shape real_full) = Inr epsilon0"
    and dv: "to_device dev (params self) epsilon0 = Inr epsilon"
    and gg: "get_gradient (critic_model self) real_full generated epsilon = Inr gradient"
    and gp: "gradient_penalty gradient = Inr gp"
    and r: "map_of r ''gradient penalty'' = Some gp"
    unfolding train_critic_def by (auto simp: and_then_eq_Inr Let_def)
  from bs assms(2,3) have sh: "shape real_full = [N, 1 + F]"
    by (rule build_samples_real_shape)
  with n have "n = N" by (simp add: shape0_def)
  with ex sh have e0: "epsilon0 = \<lparr>shape = [N, 1 + F],
      elems = concat (map (\<lambda>i. replicate (1 + F) (eps i)) [0..<N]), grad_deps = {}\<rparr>"
    by (simp add: expand_rand_col)
  from dv have "epsilon = epsilon0"
    by (rule to_device_Inr)
  with e0 gg sh obtain g where
    g: "input_grad (critic_model self)
             \<lparr>shape = [N, 1 + F],
              elems = map (\<lambda>(e, r, f). e * r + (1 - e) * f)
                        (zip (concat (map (\<lambda>i. replicate (1 + F) (eps i)) [0..<N]))
                             (zip (elems real_full) (elems generated))),
              grad_deps = grad_deps real_full\<rparr> = Inr g"
    and rows: "rows_of gradient = rows_of g"
    by (auto simp: get_gradient_def interpolate_def detach_def and_then_eq_Inr rows_of_def
        split: if_splits)
  from gp rows have item:
    "item gp =
       (if rows_of g = [] then None
        else Some (sum_list (map (\<lambda>row. (sqrt (sum_list (map (\<lambda>v. v * v) row)) - 1)
                                        * (sqrt (sum_list (map (\<lambda>v. v * v) row)) - 1))
                                 (rows_of g))
                   / real (length (rows_of g))))"
    by (auto simp: gradient_penalty_def l2_norm_def split: if_splits)
  have "\<forall>v. item gp = Some v \<longrightarrow> 0 \<le> v"
    unfolding item
    using mean_of_squares_nonneg [of "\<lambda>row. sqrt (sum_list (map (\<lambda>v. v * v) row))" "rows_of g"]
    by auto
  with bs g r item show ?thesis by blast
qed

theorem gradient_penalty_value_witness:
  "train_critic cpu_only (example_wgan 0) (example_x, example_dlls) zero_draws half_draws =
     Inr (example_critic_result 0) \<and>
   shape example_x = [2, 1] \<and> shape example_dlls = [2] \<and>
   (\<exists>gp v. map_of (example_critic_result 0) ''gradient penalty'' = Some gp \<and>
            item gp = Some v \<and> 0 \<le> v)"
proof -
  have tc: "train_critic cpu_only (example_wgan 0) (example_x, example_dlls) zero_draws
              half_draws = Inr (example_critic_result 0)"
    using example_train_critic [of 0 zero_draws] by (simp add: example_batch_def)
  have x: "shape example_x = [2, 1]" and dlls: "shape example_dlls = [2]"
    by (simp_all add: example_x_def example_dlls_def)
  from gradient_penalty_value [OF tc x dlls] obtain gp where
    gp: "map_of (example_critic_result 0) ''gradient penalty'' = Some gp"
    and nonneg: "\<forall>v. item gp = Some v \<longrightarrow> 0 \<le> v"
    by blast
  from gp have "item gp = Some (1 / 2)"
    by (auto simp: example_critic_result_def example_penalty_def)
  with gp nonneg tc x dlls show ?thesis by blast
qed

section \<open>Inference\<close>

text \<open>
  C5. The spec has \<open>generate\<close> build the conditioned input, forward the generator once
  and return the generated features. For every object, batch and noise, \<open>generate\<close>
  returns nothing: it raises \<open>KeyError\<close> when the configuration has no \<open>device\<close>,
  torch's error when the device is not accepted, and otherwise \<open>UnboundLocalError\<close> at
  the read of \<open>dlls\<close>, before the noise is drawn and the generator is called.
\<close>

theorem generate_always_raises:
  "generate dev self batch noise = Inl (KeyError ''device'') \<or>
   generate dev self batch noise = Inl (RuntimeError ''device'') \<or>
   generate dev self batch noise = Inl (UnboundLocalError ''dlls'')"
  by (simp add: generate_def to_device_def lookup_def read_local_def split: option.splits)

section \<open>The training loop: what each step changes\<close>

lemma log_metric_Inr:
  assumes "log_metric key arg T = Inr T'"
  shows "\<exists>evs v. neptune_logger T = Some evs \<and> arg = Inr v \<and>
           T' = T\<lparr>neptune_logger := Some (evs @ [LogMetric key v])\<rparr>"
  using assms by (auto simp: log_metric_def and_then_eq_Inr split: option.splits)

lemma log_losses_Inr:
  "log_losses ls T = Inr T' \<Longrightarrow> \<exists>l. T' = T\<lparr>neptune_logger := l\<rparr>"
proof (induction ls arbitrary: T)
  case Nil
  then have "T' = T\<lparr>neptune_logger := neptune_logger T\<rparr>" by simp
  then show ?case by blast
next
  case (Cons kv ls)
  obtain key v where kv: "kv = (key, v)" by (cases kv)
  from Cons.prems kv obtain T1 where
    a: "log_metric key (Inr (Number (item v))) T = Inr T1" and b: "log_losses ls T1 = Inr T'"
    by (auto simp: and_then_eq_Inr)
  from log_metric_Inr [OF a] obtain l1 where "T1 = T\<lparr>neptune_logger := l1\<rparr>" by blast
  moreover from Cons.IH [OF b] obtain l where "T' = T1\<lparr>neptune_logger := l\<rparr>" by blast
  ultimately have "T' = T\<lparr>neptune_logger := l\<rparr>" by simp
  then show ?case by blast
qed

lemma backward_Inr:
  assumes "backward loss T = Inr T'"
  shows "T' = T\<lparr>param_grads :=
                   (\<lambda>w. if w \<in> sdeps loss then param_grads T w @ [loss] else param_grads T w)\<rparr>"
  using assms by (simp add: backward_def split: if_splits)

lemma critic_update_Inr:
  assumes "critic_update E batch T = Inr T'"
  obtains losses loss T3 where
    "train_critic (accepts_device E) (gan_model T) batch (rng E (rng_calls T))
       (rng E (rng_calls T + 1)) = Inr losses"
    and "map_of losses ''C/loss'' = Some loss"
    and "backward loss (zero_grad (critic_optimizer T) T
           \<lparr>critic_losses := Some losses, rng_calls := rng_calls T + 2\<rparr>) = Inr T3"
    and "T' = critic_optimizer_step E T3"
proof -
  from assms obtain losses where
    a: "train_critic (accepts_device E) (gan_model T) batch (rng E (rng_calls T))
          (rng E (rng_calls T + 1)) = Inr losses"
    and b: "and_then (lookup losses ''C/loss'') (\<lambda>critic_total_loss.
            and_then (backward critic_total_loss (zero_grad (critic_optimizer T) T
               \<lparr>critic_losses := Some losses, rng_calls := rng_calls T + 2\<rparr>)) (\<lambda>T3.
              Inr (critic_optimizer_step E T3))) = Inr T'"
    unfolding critic_update_def Let_def
    by (elim and_thenE) (simp add: zero_grad_def)
  from b obtain loss T3 where "lookup losses ''C/loss'' = Inr loss"
    and "backward loss (zero_grad (critic_optimizer T) T
           \<lparr>critic_losses := Some losses, rng_calls := rng_calls T + 2\<rparr>) = Inr T3"
    and "T' = critic_optimizer_step E T3"
    by (elim and_thenE) simp
  with a that show ?thesis
    by (auto simp: lookup_def split: option.splits)
qed

lemma critic_update_frame:
  assumes "critic_update E batch T = Inr T'"
  shows "step_count (critic_optimizer T') = Suc (step_count (critic_optimizer T))"
    and "opt_params (critic_optimizer T') = opt_params (critic_optimizer T)"
    and "generator_optimizer T' = generator_optimizer T"
    and "critic_step T' = critic_step T"
    and "freeze_generator T' = freeze_generator T"
    and "display_step T' = display_step T"
    and "save_path T' = save_path T"
    and "filesystem T' = filesystem T"
    and "critic_losses T' \<noteq> None"
    and "opt_params (critic_optimizer T) = Critic \<Longrightarrow>
           generator_model (gan_model T') = generator_model (gan_model T)"
proof -
  from assms obtain losses loss T3 where
    bw: "backward loss (zero_grad (critic_optimizer T) T
           \<lparr>critic_losses := Some losses, rng_calls := rng_calls T + 2\<rparr>) = Inr T3"
    and T': "T' = critic_optimizer_step E T3"
    by (rule critic_update_Inr)
  note T3 = backward_Inr [OF bw]
  show "step_count (critic_optimizer T') = Suc (step_count (critic_optimizer T))"
    and "opt_params (critic_optimizer T') = opt_params (critic_optimizer T)"
    and "generator_optimizer T' = generator_optimizer T"
    and "critic_step T' = critic_step T"
    and "freeze_generator T' = freeze_generator T"
    and "display_step T' = display_step T"
    and "save_path T' = save_path T"
    and "filesystem T' = filesystem T"
    and "critic_losses T' \<noteq> None"
    unfolding T' T3 by (simp_all add: critic_optimizer_step_def zero_grad_def)
  show "generator_model (gan_model T') = generator_model (gan_model T)"
    if "opt_params (critic_optimizer T) = Critic"
    using that unfolding T' T3
    by (simp add: critic_optimizer_step_def zero_grad_def update_net_def)
qed

lemma critic_loop_frame:
  "critic_loop E k batch T = Inr T' \<Longrightarrow>
     step_count (critic_optimizer T') = step_count (critic_optimizer T) + k \<and>
     opt_params (critic_optimizer T') = opt_params (critic_optimizer T) \<and>
     generator_optimizer T' = generator_optimizer T \<and>
     critic_step T' = critic_step T \<and>
     freeze_generator T' = freeze_generator T \<and>
     display_step T' = display_step T \<and>
     save_path T' = save_path T \<and>
     filesystem T' = filesystem T \<and>
     (opt_params (critic_optimizer T) = Critic \<longrightarrow>
        generator_model (gan_model T') = generator_model (gan_model T))"
proof (induction k arbitrary: T)
  case 0
  then show ?case by simp
next
  case (Suc k)
  from Suc.prems obtain T1 where
    a: "critic_update E batch T = Inr T1" and b: "critic_loop E k batch T1 = Inr T'"
    by (auto elim: and_thenE)
  from critic_update_frame [OF a] Suc.IH [OF b] show ?case by simp
qed

lemma generator_update_frame:
  assumes "generator_update E batch T = Inr T'"
  shows "step_count (generator_optimizer T') =
           step_count (generator_optimizer T) + (if freeze_generator T then 0 else 1)"
    and "critic_optimizer T' = critic_optimizer T"
    and "display_step T' = display_step T"
    and "save_path T' = save_path T"
    and "filesystem T' = filesystem T"
    and "critic_losses T' = critic_losses T"
    and "opt_params (generator_optimizer T) = Generator \<Longrightarrow>
           critic_model (gan_model T') = critic_model (gan_model T)"
proof -
  have "step_count (generator_optimizer T') =
           step_count (generator_optimizer T) + (if freeze_generator T then 0 else 1) \<and>
        critic_optimizer T' = critic_optimizer T \<and>
        display_step T' = display_step T \<and>
        save_path T' = save_path T \<and>
        filesystem T' = filesystem T \<and>
        critic_losses T' = critic_losses T \<and>
        (opt_params (generator_optimizer T) = Generator \<longrightarrow>
           critic_model (gan_model T') = critic_model (gan_model T))"
  proof (cases "freeze_generator T")
    case True
    with assms have "T' = zero_grad (generator_optimizer T) T"
      by (simp add: generator_update_def Let_def zero_grad_def)
    with True show ?thesis by (simp add: zero_grad_def)
  next
    case False
    with assms have
      "and_then (train_generator (accepts_device E) (gan_model T) batch (rng E (rng_calls T)))
         (\<lambda>losses.
         and_then (lookup losses ''G/loss'') (\<lambda>generator_total_loss.
         and_then (backward generator_total_loss
            (zero_grad (generator_optimizer T) T\<lparr>rng_calls := rng_calls T + 1\<rparr>)) (\<lambda>T3.
           log_losses losses (generator_optimizer_step E T3)))) = Inr T'"
      by (simp add: generator_update_def Let_def zero_grad_def)
    then obtain losses loss T3 where
      bw: "backward loss (zero_grad (generator_optimizer T) T
              \<lparr>rng_calls := rng_calls T + 1\<rparr>) = Inr T3"
      and lg: "log_losses losses (generator_optimizer_step E T3) = Inr T'"
      by (elim and_thenE)
    from log_losses_Inr [OF lg] obtain l where
      T': "T' = (generator_optimizer_step E T3)\<lparr>neptune_logger := l\<rparr>" by blast
    show ?thesis
      using False unfolding T' backward_Inr [OF bw]
      by (simp add: generator_optimizer_step_def zero_grad_def update_net_def)
  qed
  then show "step_count (generator_optimizer T') =
           step_count (generator_optimizer T) + (if freeze_generator T then 0 else 1)"
    and "critic_optimizer T' = critic_optimizer T"
    and "display_step T' = display_step T"
    and "save_path T' = save_path T"
    and "filesystem T' = filesystem T"
    and "critic_losses T' = critic_losses T"
    and "opt_params (generator_optimizer T) = Generator \<Longrightarrow>
           critic_model (gan_model T') = critic_model (gan_model T)"
    by simp_all
qed

text \<open>The block of lines 90 to 100 returns only when the index of the iteration is not
  a multiple of \<open>display_step\<close>, and then it has done nothing: at a multiple, the read
  of \<open>self.gan_model.save_models\<close> raises.\<close>

lemma display_Inr:
  assumes "display E vl epoch iteration T = Inr T'"
  shows "T' = T" and "display_step T \<noteq> 0" and "int iteration mod display_step T \<noteq> 0"
proof -
  from assms show nz: "display_step T \<noteq> 0"
    by (auto simp: display_def)
  show m: "int iteration mod display_step T \<noteq> 0"
  proof
    assume "int iteration mod display_step T = 0"
    with assms nz have
      "and_then (ensure_dir E T) (\<lambda>T1.
         and_then save_models (\<lambda>save.
         and_then (save (path_join (save_path T1) (checkpoint_name epoch iteration)) epoch T1)
           (\<lambda>T2.
         and_then evaluate (\<lambda>eval.
         and_then (eval (gan_model T2) vl) (\<lambda>outputs.
         and_then (log_image ''Histograms'' (lookup outputs ''histogram'') T2) (\<lambda>T3.
           log_metric ''rocauc'' (lookup outputs ''rocauc'') T3)))))) = Inr T'"
      by (simp add: display_def Let_def)
    then obtain save where "save_models = Inr save"
      by (elim and_thenE)
    then show False
      by (simp add: save_models_def)
  qed
  from assms nz m show "T' = T"
    by (simp add: display_def)
qed

lemma outer_iteration_Inr:
  assumes "outer_iteration E vl epoch iteration batch T = Inr T'"
  obtains T1 T2 losses T3 where
    "critic_loop E (nat (critic_step T)) batch T = Inr T1"
    and "generator_update E batch T1 = Inr T2"
    and "critic_losses T2 = Some losses"
    and "log_losses losses T2 = Inr T3"
    and "display E vl epoch iteration T3 = Inr T'"
  using assms unfolding outer_iteration_def
  by (elim and_thenE) (auto simp: read_local_def split: option.splits)

text \<open>So no iteration whose index is a multiple of \<open>display_step\<close> completes, whatever
  the model, the batch, the collaborators and the state of the trainer.\<close>

lemma outer_iteration_at_multiple:
  assumes "display_step T dvd int iteration"
  shows "outer_iteration E vl epoch iteration batch T \<noteq> Inr T'"
proof
  assume "outer_iteration E vl epoch iteration batch T = Inr T'"
  then obtain T1 T2 losses T3 where
    cl: "critic_loop E (nat (critic_step T)) batch T = Inr T1"
    and gu: "generator_update E batch T1 = Inr T2"
    and ll: "log_losses losses T2 = Inr T3"
    and di: "display E vl epoch iteration T3 = Inr T'"
    by (rule outer_iteration_Inr)
  from log_losses_Inr [OF ll] obtain l where T3: "T3 = T2\<lparr>neptune_logger := l\<rparr>" by blast
  from critic_loop_frame [OF cl] generator_update_frame(3) [OF gu] T3
  have "display_step T3 = display_step T"
    by simp
  with display_Inr(3) [OF di] assms show False
    by (simp add: dvd_eq_mod_eq_0)
qed

text \<open>What a critic update backpropagates reaches the critic's parameters only, for a
  batch that comes from the loader.\<close>

lemma cat_grad_deps:
  assumes "cat a b = Inr t"
  shows "grad_deps t = grad_deps a \<union> grad_deps b"
  using assms by (auto simp: cat_def split: if_splits)

lemma unsqueeze_grad_deps:
  assumes "unsqueeze t = Inr u"
  shows "grad_deps u = grad_deps t"
  using assms by (auto simp: unsqueeze_def split: list.splits)

lemma expand_grad_deps:
  assumes "expand e sz = Inr t"
  shows "grad_deps t = grad_deps e"
  using assms by (auto simp: expand_def Let_def split: if_splits)

lemma build_samples_real_deps:
  assumes "build_samples dev self batch noise = Inr (real_full, generated)"
  shows "grad_deps real_full = grad_deps (snd batch) \<union> grad_deps (fst batch)"
proof -
  from assms obtain x1 d0 d1 where
    x: "to_device dev (params self) (fst batch) = Inr x1"
    and d: "to_device dev (params self) (snd batch) = Inr d0"
    and u: "unsqueeze d0 = Inr d1" and c: "cat d1 x1 = Inr real_full"
    unfolding build_samples_def by (auto simp: and_then_eq_Inr)
  from to_device_Inr [OF x] to_device_Inr [OF d] unsqueeze_grad_deps [OF u] cat_grad_deps [OF c]
  show ?thesis by simp
qed

lemma train_critic_Inr:
  assumes tc: "train_critic dev self batch noise eps = Inr r"
  obtains real_full generated fp rp n epsilon0 epsilon gradient gp where
    "build_samples dev self batch noise = Inr (real_full, generated)"
    and "apply_net Critic (critic_model self) (detach generated) = Inr fp"
    and "apply_net Critic (critic_model self) real_full = Inr rp"
    and "shape0 real_full = Inr n"
    and "expand (rand_col n eps) (shape real_full) = Inr epsilon0"
    and "to_device dev (params self) epsilon0 = Inr epsilon"
    and "get_gradient (critic_model self) real_full generated epsilon = Inr gradient"
    and "gradient_penalty gradient = Inr gp"
    and "r = [(''C/loss'', s_add (s_sub (mean fp) (mean fp)) (s_scale 10 gp)),
                 (''C/fake_pred'', mean fp), (''C/real_pred'', mean rp),
                 (''gradient penalty'', gp)]"
proof -
  from tc obtain sm where bs0: "build_samples dev self batch noise = Inr sm"
    and rest0: "(case sm of (real_full, generated) \<Rightarrow>
     and_then (apply_net Critic (critic_model self) (detach generated)) (\<lambda>crit_fake_pred.
     and_then (apply_net Critic (critic_model self) real_full) (\<lambda>crit_real_pred.
     and_then (shape0 real_full) (\<lambda>n.
     and_then (expand (rand_col n eps) (shape real_full)) (\<lambda>epsilon0.
     and_then (to_device dev (params self) epsilon0) (\<lambda>epsilon.
     and_then (get_gradient (critic_model self) real_full generated epsilon) (\<lambda>gradient.
     and_then (gradient_penalty gradient) (\<lambda>gp.
       Inr [(''C/loss'', s_add (s_sub (mean crit_fake_pred) (mean crit_fake_pred))
                           (s_scale 10 gp)),
            (''C/fake_pred'', mean crit_fake_pred),
            (''C/real_pred'', mean crit_real_pred),
            (''gradient penalty'', gp)])))))))) = Inr r"
    unfolding train_critic_def Let_def by (erule and_thenE)
  obtain real_full generated where sm: "sm = (real_full, generated)"
    by (cases sm)
  from rest0 [unfolded sm prod.case] obtain fp rp n epsilon0 epsilon gradient gp where
    "apply_net Critic (critic_model self) (detach generated) = Inr fp"
    and "apply_net Critic (critic_model self) real_full = Inr rp"
    and "shape0 real_full = Inr n"
    and "expand (rand_col n eps) (shape real_full) = Inr epsilon0"
    and "to_device dev (params self) epsilon0 = Inr epsilon"
    and "get_gradient (critic_model self) real_full generated epsilon = Inr gradient"
    and "gradient_penalty gradient = Inr gp"
    and "r = [(''C/loss'', s_add (s_sub (mean fp) (mean fp)) (s_scale 10 gp)),
                 (''C/fake_pred'', mean fp), (''C/real_pred'', mean rp),
                 (''gradient penalty'', gp)]"
    by (elim and_thenE) simp
  with bs0 sm that show ?thesis
    by blast
qed


lemma interpolate_grad_deps:
  "grad_deps (interpolate real_t fake_t epsilon) = grad_deps epsilon \<union> grad_deps real_t"
  by (simp add: interpolate_def detach_def)

lemma get_gradient_grad_deps:
  assumes "get_gradient crit real_t fake_t epsilon = Inr g"
  shows "grad_deps g = insert Critic (grad_deps epsilon \<union> grad_deps real_t)"
proof -
  from assms obtain g0 where
    "g = g0\<lparr>grad_deps := insert Critic (grad_deps (interpolate real_t fake_t epsilon))\<rparr>"
    by (auto simp: get_gradient_def and_then_eq_Inr split: if_splits)
  then show ?thesis
    by (simp add: interpolate_grad_deps)
qed

lemma gradient_penalty_sdeps:
  assumes "gradient_penalty g = Inr gp"
  shows "sdeps gp = grad_deps g"
  using assms by (auto simp: gradient_penalty_def split: if_splits)

lemma apply_net_grad_deps:
  assumes "apply_net w m t = Inr y"
  shows "grad_deps y = insert w (grad_deps t)"
  using assms by (auto simp: apply_net_def and_then_eq_Inr)


lemma train_critic_deps:
  assumes tc: "train_critic dev self batch noise eps = Inr r"
    and x: "grad_deps (fst batch) = {}" and dlls: "grad_deps (snd batch) = {}"
  shows "\<exists>loss fake real_s gp.
           r = [(''C/loss'', loss), (''C/fake_pred'', fake), (''C/real_pred'', real_s),
                (''gradient penalty'', gp)] \<and>
           sdeps loss = {Critic} \<and> sdeps fake = {Critic} \<and> sdeps gp = {Critic}"
proof -
  from tc obtain real_full generated fp rp n epsilon0 epsilon gradient gp where
    bs: "build_samples dev self batch noise = Inr (real_full, generated)"
    and fp: "apply_net Critic (critic_model self) (detach generated) = Inr fp"
    and ex: "expand (rand_col n eps) (shape real_full) = Inr epsilon0"
    and dv: "to_device dev (params self) epsilon0 = Inr epsilon"
    and gg: "get_gradient (critic_model self) real_full generated epsilon = Inr gradient"
    and gp: "gradient_penalty gradient = Inr gp"
    and r: "r = [(''C/loss'', s_add (s_sub (mean fp) (mean fp)) (s_scale 10 gp)),
                 (''C/fake_pred'', mean fp), (''C/real_pred'', mean rp),
                 (''gradient penalty'', gp)]"
    by (rule train_critic_Inr)
  from apply_net_grad_deps [OF fp] have f: "sdeps (mean fp) = {Critic}"
    by (simp add: detach_def mean_def)
  from build_samples_real_deps [OF bs] x dlls have rf: "grad_deps real_full = {}"
    by simp
  from to_device_Inr [OF dv] expand_grad_deps [OF ex] have e: "grad_deps epsilon = {}"
    by (simp add: rand_col_def)
  from get_gradient_grad_deps [OF gg] rf e have "grad_deps gradient = {Critic}"
    by simp
  with gradient_penalty_sdeps [OF gp] have g: "sdeps gp = {Critic}"
    by simp
  from f g have l: "sdeps (s_add (s_sub (mean fp) (mean fp)) (s_scale 10 gp)) = {Critic}"
    by (simp add: s_add_def s_sub_def s_scale_def)
  show ?thesis
    unfolding r using l f g by (intro exI conjI) (rule refl, assumption+)
qed

section \<open>The training loop on the concrete inputs\<close>

lemma example_wgan_simps [simp]:
  "(example_wgan c)\<lparr>critic_model := shifted_critic d\<rparr> = example_wgan d"
  "(example_wgan c)\<lparr>generator_model := zero_generator\<rparr> = example_wgan c"
  "generator_model (example_wgan c) = zero_generator"
  "critic_model (example_wgan c) = shifted_critic c"
  by (simp_all add: example_wgan_def)

text \<open>The name of the checkpoint file, with the decimal digits of the two numbers.\<close>

lemma example_checkpoint_name:
  "checkpoint_name 0 0 = ''epoch_0_iter_0.pt''"
  "checkpoint_name 12 305 = ''epoch_12_iter_305.pt''"
  by code_simp+

lemma example_Trainer_init:
  "Trainer_init (example_wgan 0) 1 2 2 ''ckpt'' False (Some []) (\<lambda>p. None) = Inr example_trainer"
  by (simp add: Trainer_init_def configure_optimizers_def adam_for_def Adam_def
      check_non_negative_def example_wgan_def zero_generator_def shifted_critic_def
      example_config_def example_section_def lookup_def getitem_def example_trainer_def
      example_optimizer_def)

lemmas trainer_ops = critic_update_def generator_update_def Let_def zero_grad_def lookup_def
  backward_def critic_optimizer_step_def generator_optimizer_step_def update_net_def
  log_metric_def log_image_def read_local_def display_def ensure_dir_def save_models_def
  path_join_def

lemmas example_values = example_collaborators_def example_optimizer_def
  example_critic_result_def example_critic_loss_def example_penalty_def
  example_generator_loss_def

lemma owner_either: "w = Critic \<or> w = Generator"
  by (cases w) simp_all

lemma example_critic_update:
  "critic_update example_collaborators example_batch example_trainer =
     Inr example_after_critic_update"
  by (simp add: example_trainer_def example_after_critic_update_def trainer_ops
      example_train_critic example_values fun_eq_iff owner_either split: owner.splits)

lemma example_critic_loop:
  "critic_loop example_collaborators 2 example_batch example_trainer =
     Inr example_after_critic_loop"
  by (simp add: numeral_2_eq_2 example_trainer_def example_after_critic_loop_def trainer_ops
      example_train_critic example_values fun_eq_iff split: owner.splits)

lemma example_generator_update:
  "generator_update example_collaborators example_batch example_after_critic_loop =
     Inr example_after_generator_update"
  by (simp add: example_trainer_def example_after_critic_loop_def
      example_after_generator_update_def trainer_ops example_train_generator example_values
      fun_eq_iff split: owner.splits)

lemma example_critic_step: "nat (critic_step example_trainer) = 2"
  by (simp add: example_trainer_def)

text \<open>The iteration of index 1, which \<open>display_step = 2\<close> does not divide, completes.\<close>

lemma example_outer_iteration:
  "outer_iteration example_collaborators None 0 1 example_batch example_trainer =
     Inr example_after"
  unfolding outer_iteration_def example_critic_step example_critic_loop and_then_Inr
    example_generator_update
  by (simp add: example_trainer_def example_after_critic_loop_def
      example_after_generator_update_def example_after_def trainer_ops example_values)

text \<open>The iteration of index 0 runs the two critic updates, the generator update and
  the logging of the losses, creates the save directory and raises.\<close>

lemma example_outer_iteration_0:
  "outer_iteration example_collaborators None 0 0 example_batch example_trainer =
     Inl (AttributeError ''save_models'')"
  unfolding outer_iteration_def example_critic_step example_critic_loop and_then_Inr
    example_generator_update
  by (simp add: example_trainer_def example_after_critic_loop_def
      example_after_generator_update_def trainer_ops example_values)

section \<open>The claims about the training loop\<close>

text \<open>
  C9. Whenever \<open>train_generator\<close> returns, its result holds under \<open>'G/loss'\<close> the
  negative of the mean of the critic's scores of the generated sample of the batch
  (\<open>nan\<close> when the critic returns no score). The function returns this dict and writes
  nothing; and the generator update of the loop, which calls it, backpropagates its loss
  and steps the generator's optimizer, leaves the critic network and the critic's
  optimizer as they were. (The backward pass of the loop adds the gradient of this loss
  to the gradient buffers of the critic's parameters too; the next critic update clears
  them before it uses them.)
\<close>

theorem train_generator_loss:
  assumes "train_generator dev self batch noise = Inr r"
    and "gan_model T = self"
    and "opt_params (generator_optimizer T) = Generator"
    and "generator_update E batch T = Inr T'"
  shows "(\<exists>real_full generated pred.
            build_samples dev self batch noise = Inr (real_full, generated) \<and>
            forward (critic_model self) generated = Inr pred \<and>
            r = [(''G/loss'',
                  \<lparr>item = (if elems pred = [] then None
                            else Some (- (sum_list (elems pred) / real (length (elems pred))))),
                   sdeps = insert Critic (grad_deps generated)\<rparr>)]) \<and>
         critic_model (gan_model T') = critic_model self \<and>
         critic_optimizer T' = critic_optimizer T"
proof -
  from assms(1) have
    "\<exists>real_full generated pred.
        build_samples dev self batch noise = Inr (real_full, generated) \<and>
        forward (critic_model self) generated = Inr pred \<and>
        r = [(''G/loss'',
              \<lparr>item = (if elems pred = [] then None
                        else Some (- (sum_list (elems pred) / real (length (elems pred))))),
               sdeps = insert Critic (grad_deps generated)\<rparr>)]"
    unfolding train_generator_def
    by (auto simp: and_then_eq_Inr Let_def apply_net_def mean_def s_neg_def)
  with generator_update_frame(2,7) [OF assms(4)] assms(2,3) show ?thesis
    by simp
qed

theorem train_generator_loss_witness:
  "train_generator cpu_only (example_wgan 1) example_batch zero_draws =
     Inr [(''G/loss'', example_generator_loss)] \<and>
   gan_model example_after_critic_loop = example_wgan 1 \<and>
   opt_params (generator_optimizer example_after_critic_loop) = Generator \<and>
   generator_update example_collaborators example_batch example_after_critic_loop =
     Inr example_after_generator_update \<and>
   critic_model (gan_model example_after_generator_update) = shifted_critic 1 \<and>
   critic_optimizer example_after_generator_update =
     critic_optimizer example_after_critic_loop"
proof -
  have tg: "train_generator cpu_only (example_wgan 1) example_batch zero_draws =
              Inr [(''G/loss'', example_generator_loss)]"
    by (simp add: example_train_generator example_generator_loss_def)
  have gm: "gan_model example_after_critic_loop = example_wgan 1"
    and op: "opt_params (generator_optimizer example_after_critic_loop) = Generator"
    by (simp_all add: example_after_critic_loop_def example_trainer_def example_optimizer_def)
  from train_generator_loss [OF tg gm op example_generator_update] tg gm op
    example_generator_update
  show ?thesis by simp
qed

text \<open>
  C4. Whenever a critic update of the loop (lines 68 to 74) completes, for a batch from
  the loader (its tensors reach no parameters) and a critic optimizer that holds the
  critic's parameters: the mean score under \<open>'C/fake_pred'\<close>, taken on the detached
  generated sample, and the loss under \<open>'C/loss'\<close> reach the critic's parameters only;
  backpropagating the loss leaves the gradient buffers of the generator's parameters as
  they were, and the generator network after the update is the one before it.
  In the source the score uses \<open>generated.detach()\<close> (line 124) and the optimizer that
  steps is the critic's; that the penalty reaches no generator parameter rests on
  \<open>get_gradient\<close>, which receives \<open>generated\<close> as it is (line 136) and is modelled from
  the spec.
\<close>

theorem critic_update_keeps_generator:
  assumes cu: "critic_update E batch T = Inr T'"
    and cr: "opt_params (critic_optimizer T) = Critic"
    and x: "grad_deps (fst batch) = {}" and dlls: "grad_deps (snd batch) = {}"
  shows "\<exists>losses fake loss.
           train_critic (accepts_device E) (gan_model T) batch (rng E (rng_calls T))
             (rng E (rng_calls T + 1)) = Inr losses \<and>
           map_of losses ''C/fake_pred'' = Some fake \<and> sdeps fake = {Critic} \<and>
           map_of losses ''C/loss'' = Some loss \<and> sdeps loss = {Critic} \<and>
           param_grads T' Generator = param_grads T Generator \<and>
           generator_model (gan_model T') = generator_model (gan_model T)"
proof -
  from cu obtain losses loss T3 where
    tc: "train_critic (accepts_device E) (gan_model T) batch (rng E (rng_calls T))
           (rng E (rng_calls T + 1)) = Inr losses"
    and lk: "map_of losses ''C/loss'' = Some loss"
    and bw: "backward loss (zero_grad (critic_optimizer T) T
           \<lparr>critic_losses := Some losses, rng_calls := rng_calls T + 2\<rparr>) = Inr T3"
    and T': "T' = critic_optimizer_step E T3"
    by (rule critic_update_Inr)
  from train_critic_deps [OF tc x dlls] obtain l fake real_s gp where
    ls: "losses = [(''C/loss'', l), (''C/fake_pred'', fake), (''C/real_pred'', real_s),
                   (''gradient penalty'', gp)]"
    and l: "sdeps l = {Critic}" and f: "sdeps fake = {Critic}"
    by blast
  from ls lk have ll: "loss = l"
    by simp
  from ls have fk: "map_of losses ''C/fake_pred'' = Some fake"
    by simp
  have pg: "param_grads T' Generator = param_grads T Generator"
    unfolding T' backward_Inr [OF bw] using cr l ll
    by (simp add: critic_optimizer_step_def zero_grad_def)
  from critic_update_frame(10) [OF cu cr] tc fk f lk l ll pg show ?thesis
    by blast
qed

theorem critic_update_keeps_generator_witness:
  "critic_update example_collaborators example_batch example_trainer =
     Inr example_after_critic_update \<and>
   opt_params (critic_optimizer example_trainer) = Critic \<and>
   grad_deps (fst example_batch) = {} \<and> grad_deps (snd example_batch) = {} \<and>
   param_grads example_after_critic_update Generator = param_grads example_trainer Generator \<and>
   generator_model (gan_model example_after_critic_update) =
     generator_model (gan_model example_trainer) \<and>
   critic_model (gan_model example_trainer) = shifted_critic 0 \<and>
   critic_model (gan_model example_after_critic_update) = shifted_critic 1"
proof -
  have cr: "opt_params (critic_optimizer example_trainer) = Critic"
    and x: "grad_deps (fst example_batch) = {}"
    and dlls: "grad_deps (snd example_batch) = {}"
    by (simp_all add: example_trainer_def example_optimizer_def example_batch_def
        example_x_def example_dlls_def)
  have cm: "critic_model (gan_model example_trainer) = shifted_critic 0"
    "critic_model (gan_model example_after_critic_update) = shifted_critic 1"
    by (simp_all add: example_trainer_def example_after_critic_update_def)
  from critic_update_keeps_generator [OF example_critic_update cr x dlls] cr x dlls cm
    example_critic_update
  show ?thesis by blast
qed

text \<open>
  C6. Over one iteration of the loop over the batches that completes, with
  \<open>critic_step = k\<close> for a natural number \<open>k\<close>, the step count of the critic's optimizer
  grows by exactly \<open>k\<close>, and that of the generator's optimizer by exactly 1, or by 0
  when \<open>freeze_generator\<close> is set.
\<close>

theorem outer_iteration_step_counts:
  assumes "outer_iteration E vl epoch iteration batch T = Inr T'"
    and "critic_step T = int k"
  shows "step_count (critic_optimizer T') = step_count (critic_optimizer T) + k \<and>
         step_count (generator_optimizer T') =
           step_count (generator_optimizer T) + (if freeze_generator T then 0 else 1)"
proof -
  from assms(1) obtain T1 T2 losses T3 where
    cl: "critic_loop E (nat (critic_step T)) batch T = Inr T1"
    and gu: "generator_update E batch T1 = Inr T2"
    and ll: "log_losses losses T2 = Inr T3"
    and di: "display E vl epoch iteration T3 = Inr T'"
    by (rule outer_iteration_Inr)
  from log_losses_Inr [OF ll] obtain l where T3: "T3 = T2\<lparr>neptune_logger := l\<rparr>" by blast
  from critic_loop_frame [OF cl] generator_update_frame(1,2) [OF gu] display_Inr(1) [OF di]
    assms(2) T3
  show ?thesis by simp
qed

theorem outer_iteration_step_counts_witness:
  "outer_iteration example_collaborators None 0 1 example_batch example_trainer =
     Inr example_after \<and>
   critic_step example_trainer = int 2 \<and>
   step_count (critic_optimizer example_trainer) = 0 \<and>
   step_count (generator_optimizer example_trainer) = 0 \<and>
   step_count (critic_optimizer example_after) = 2 \<and>
   step_count (generator_optimizer example_after) = 1"
proof -
  have k: "critic_step example_trainer = int 2"
    and c0: "step_count (critic_optimizer example_trainer) = 0"
    and g0: "step_count (generator_optimizer example_trainer) = 0"
    and fg: "\<not> freeze_generator example_trainer"
    by (simp_all add: example_trainer_def example_optimizer_def)
  from outer_iteration_step_counts [OF example_outer_iteration k] k c0 g0 fg
    example_outer_iteration
  show ?thesis by simp
qed

text \<open>
  C7. The spec has the loop, at every iteration whose index is a multiple of
  \<open>display_step\<close>, write the checkpoint \<open>epoch_<e>_iter_<i>.pt\<close>, run \<open>evaluate\<close> on the
  validation loader and send the histogram and the score to the metrics sink. The model
  that \<open>fit\<close> trains is a \<open>WGAN\<close>, and the class has neither \<open>save_models\<close> nor
  \<open>evaluate\<close>. On the concrete inputs, with \<open>display_step = 2\<close>, the iteration of index
  0 of epoch 0 raises \<open>AttributeError\<close> at line 95, and so does \<open>fit\<close> on a loader with
  this one batch: no checkpoint is written, \<open>evaluate\<close> does not run, nothing of it
  reaches the metrics sink.
\<close>

theorem fit_raises_at_checkpoint:
  "display_step example_trainer dvd int 0 \<and>
   outer_iteration example_collaborators None 0 0 example_batch example_trainer =
     Inl (AttributeError ''save_models'') \<and>
   fit example_collaborators (Some [example_batch]) None example_trainer =
     Inl (AttributeError ''save_models'')"
proof -
  have "nat (max_epoch example_trainer) = Suc 0"
    by (simp add: example_trainer_def)
  then show ?thesis
    by (simp add: fit_def example_outer_iteration_0)
qed

end
